theory Spec2Isabelle
  imports Complex_Main
begin

section \<open>Errors and outcomes\<close>

text \<open>
  The Python exceptions the modelled code can raise. An operation that mutates its
  object and may raise afterwards returns an outcome: either its result, or the
  exception together with the state the mutation had reached when it was raised.
\<close>

datatype error = IndexError | ZeroDivisionError | IOError | UnboundLocalError

datatype ('s, 'a) outcome = Ok 'a | Raised error 's

section \<open>The model and its freeze policy (src/models.py)\<close>

text \<open>
  \<open>FoodVisionModel\<close>: \<open>backbone.features\<close> is an \<open>nn.Sequential\<close> of blocks and
  \<open>backbone.classifier\<close> is the head. A parameter is an object with identity, named
  here by a number; a block lists the parameters that \<open>block.parameters()\<close> yields.
  The flag \<open>param.requires_grad\<close> is mutated in place, so it lives in a store that maps a
  parameter to its flag. \<open>frozen\<close> is the attribute \<open>_frozen\<close>.
\<close>

record model =
  features :: "nat list list"
  classifier :: "nat list"
  requires_grad :: "nat \<Rightarrow> bool"
  frozen :: bool

text \<open>\<open>for param in ps: param.requires_grad = v\<close>\<close>

definition set_requires_grad :: "nat list \<Rightarrow> bool \<Rightarrow> model \<Rightarrow> model" where
  "set_requires_grad ps v m =
     m\<lparr>requires_grad := fold (\<lambda>p g. g(p := v)) ps (requires_grad m)\<rparr>"

text \<open>\<open>self.backbone.features.parameters()\<close>: the parameters of every block.\<close>

definition backbone_parameters :: "model \<Rightarrow> nat list" where
  "backbone_parameters m = concat (features m)"

definition freeze_backbone :: "model \<Rightarrow> model" where
  "freeze_backbone m = (set_requires_grad (backbone_parameters m) False m)\<lparr>frozen := True\<rparr>"

definition unfreeze_backbone :: "model \<Rightarrow> model" where
  "unfreeze_backbone m = (set_requires_grad (backbone_parameters m) True m)\<lparr>frozen := False\<rparr>"

text \<open>
  \<open>__init__\<close>: the backbone comes with the given blocks, the head is replaced by a fresh
  one, and every parameter starts with \<open>requires_grad = True\<close>, as torch creates it. The
  backbone is frozen when asked, then \<open>_frozen\<close> is set to the flag.
\<close>

definition init_model :: "nat list list \<Rightarrow> nat list \<Rightarrow> bool \<Rightarrow> model" where
  "init_model blocks head freeze =
     (let m = \<lparr>features = blocks, classifier = head, requires_grad = (\<lambda>p. True),
                frozen = False\<rparr>;
          m1 = (if freeze then freeze_backbone m else m)
      in m1\<lparr>frozen := freeze\<rparr>)"

text \<open>
  \<open>self.backbone.features[i]\<close> with a Python integer: \<open>nn.Sequential.__getitem__\<close> accepts
  an index in \<open>[-size, size)\<close>, reads a negative one from the end, and raises
  \<open>IndexError\<close> outside that range.
\<close>

definition seq_getitem :: "'a list \<Rightarrow> int \<Rightarrow> error + 'a" where
  "seq_getitem xs idx =
     (let size = int (length xs)
      in if \<not> (- size \<le> idx \<and> idx < size) then Inl IndexError
         else Inr (xs ! nat (idx mod size)))"

text \<open>
  The loop of \<open>unfreeze_last_blocks\<close> over the indices of \<open>range(total_blocks - num_blocks,
  total_blocks)\<close>: each block is looked up, then its parameters are made trainable.
\<close>

fun unfreeze_loop :: "int list \<Rightarrow> model \<Rightarrow> (model, model) outcome" where
  "unfreeze_loop [] m = Ok m"
| "unfreeze_loop (i # is) m =
     (case seq_getitem (features m) i of
        Inl e \<Rightarrow> Raised e m
      | Inr block \<Rightarrow> unfreeze_loop is (set_requires_grad block True m))"

definition unfreeze_last_blocks :: "int \<Rightarrow> model \<Rightarrow> (model, model) outcome" where
  "unfreeze_last_blocks num_blocks m =
     (let m1 = freeze_backbone m;
          total_blocks = int (length (features m1))
      in unfreeze_loop [total_blocks - num_blocks .. total_blocks - 1] m1)"

text \<open>
  In \<open>train\<close> (src/train.py, lines 187-189) the configured count reaches the model only
  when it is positive.
\<close>

definition configure_unfreeze :: "int \<Rightarrow> model \<Rightarrow> (model, model) outcome" where
  "configure_unfreeze n m = (if n > 0 then unfreeze_last_blocks n m else Ok m)"

text \<open>The state a call leaves behind, whether it returned or raised.\<close>

fun state_of :: "(model, model) outcome \<Rightarrow> model" where
  "state_of (Ok m) = m"
| "state_of (Raised e m) = m"

fun returned :: "('s, 'a) outcome \<Rightarrow> bool" where
  "returned (Ok x) = True"
| "returned (Raised e s) = False"

text \<open>The three operations of the freeze policy, and a sequence of calls on one model.\<close>

datatype policy_op = FreezeBackbone | UnfreezeBackbone | UnfreezeLastBlocks int

fun apply_op :: "policy_op \<Rightarrow> model \<Rightarrow> model" where
  "apply_op FreezeBackbone m = freeze_backbone m"
| "apply_op UnfreezeBackbone m = unfreeze_backbone m"
| "apply_op (UnfreezeLastBlocks n) m = state_of (unfreeze_last_blocks n m)"

fun apply_ops :: "policy_op list \<Rightarrow> model \<Rightarrow> model" where
  "apply_ops [] m = m"
| "apply_ops (x # xs) m = apply_ops xs (apply_op x m)"

text \<open>
  The structural invariant of the data model: every parameter belongs to exactly one
  block or to the head.
\<close>

definition well_formed :: "model \<Rightarrow> bool" where
  "well_formed m = distinct (concat (features m) @ classifier m)"

definition head_trainable :: "model \<Rightarrow> bool" where
  "head_trainable m = list_all (requires_grad m) (classifier m)"

text \<open>The parameters of the last \<open>n\<close> blocks, by the block indices the specification names.\<close>

definition params_of_last_blocks :: "model \<Rightarrow> int \<Rightarrow> nat set" where
  "params_of_last_blocks m n =
     {p. \<exists>i. int (length (features m)) - n \<le> int i \<and> i < length (features m)
            \<and> p \<in> set (features m ! i)}"

section \<open>Parameter groups (src/models.py, get_parameter_groups)\<close>

record 'l param_group =
  params :: "nat list"
  lr :: 'l
  name :: string

text \<open>
  The loops that collect the trainable parameters of the blocks with the given indices;
  a block index that \<open>features[i]\<close> rejects raises.
\<close>

fun collect_trainable :: "int list \<Rightarrow> model \<Rightarrow> nat list \<Rightarrow> error + nat list" where
  "collect_trainable [] m acc = Inr acc"
| "collect_trainable (i # is) m acc =
     (case seq_getitem (features m) i of
        Inl e \<Rightarrow> Inl e
      | Inr block \<Rightarrow> collect_trainable is m (acc @ filter (requires_grad m) block))"

definition add_group :: "nat list \<Rightarrow> 'l \<Rightarrow> string \<Rightarrow> 'l param_group list \<Rightarrow> 'l param_group list" where
  "add_group ps rate nm groups =
     (if ps \<noteq> [] then groups @ [\<lparr>params = ps, lr = rate, name = nm\<rparr>] else groups)"

definition get_parameter_groups ::
  "'l \<Rightarrow> 'l \<Rightarrow> 'l \<Rightarrow> model \<Rightarrow> error + 'l param_group list" where
  "get_parameter_groups lr_classifier lr_last_blocks lr_mid_layers m =
     (let total_blocks = int (length (features m));
          last_block_start = total_blocks - 2
      in case collect_trainable [0 .. last_block_start - 1] m [] of
           Inl e \<Rightarrow> Inl e
         | Inr mid_params \<Rightarrow>
             (let groups1 = add_group mid_params lr_mid_layers ''mid_layers'' []
              in case collect_trainable [last_block_start .. total_blocks - 1] m [] of
                   Inl e \<Rightarrow> Inl e
                 | Inr last_block_params \<Rightarrow>
                     (let groups2 = add_group last_block_params lr_last_blocks ''last_blocks'' groups1;
                          classifier_params = filter (requires_grad m) (classifier m)
                      in Inr (add_group classifier_params lr_classifier ''classifier'' groups2))))"

text \<open>The trainable parameters of the blocks with index in \<open>[lo, hi)\<close>, as the specification names them.\<close>

definition trainable_in_blocks :: "model \<Rightarrow> nat \<Rightarrow> nat \<Rightarrow> nat set" where
  "trainable_in_blocks m lo hi =
     {p. \<exists>i. lo \<le> i \<and> i < hi \<and> i < length (features m) \<and> p \<in> set (features m ! i)
            \<and> requires_grad m p}"

definition trainable_parameters :: "model \<Rightarrow> nat set" where
  "trainable_parameters m =
     {p. p \<in> set (concat (features m)) \<union> set (classifier m) \<and> requires_grad m p}"

definition group_named :: "string \<Rightarrow> 'l param_group list \<Rightarrow> 'l param_group option" where
  "group_named nm groups = find (\<lambda>g. name g = nm) groups"

text \<open>
  The end-to-end scenario of the specification: eight blocks and a head, every parameter
  trainable (the model as built with \<open>freeze_backbone=False\<close>), and the same model with
  only the last two blocks and the head trainable.
\<close>

definition example_model :: model where
  "example_model =
     \<lparr>features = [[0], [1], [2], [3], [4], [5], [6, 7], [8]], classifier = [9, 10],
      requires_grad = (\<lambda>p. True), frozen = False\<rparr>"

definition example_last_two :: model where
  "example_last_two =
     \<lparr>features = [[0], [1], [2], [3], [4], [5], [6, 7], [8]], classifier = [9, 10],
      requires_grad = (\<lambda>p. 6 \<le> p), frozen = True\<rparr>"

section \<open>One epoch of training and of evaluation (src/train.py)\<close>

text \<open>
  The network, the loss, the optimizer and the scheduler are collaborators of the
  training loop, so they are parameters of the model: \<open>'m\<close> is the state of the model
  and optimizer, \<open>'x\<close> a batch of images, \<open>'f\<close> the type of Python floats, whose
  arithmetic \<open>+\<close>, \<open>*\<close>, \<open>/\<close> is left uninterpreted (no law of real arithmetic is
  assumed of it).
  \<^item> \<open>flt n\<close> is the float of the Python integer \<open>n\<close>, as mixed arithmetic converts it;
    the literal \<open>100.0\<close> is \<open>flt 100\<close>.
  \<^item> \<open>train_batch m images labels\<close> is the body of the training loop up to
    \<open>outputs.max(1)\<close>: the state after \<open>optimizer.step()\<close>, \<open>loss.item()\<close> and the
    predicted classes.
  \<^item> \<open>eval_batch m images labels\<close> is the same under \<open>torch.no_grad()\<close>: loss and
    predicted classes.
  \<^item> \<open>scheduler_step\<close> is \<open>scheduler.step()\<close>.
  \<^item> \<open>save_fault epoch = Some k\<close>: the \<open>torch.save\<close> of that epoch fails after it has
    opened the file and written \<open>k\<close> bytes; \<open>None\<close>: it succeeds.
\<close>

record ('m, 'x, 'f) collaborators =
  flt :: "int \<Rightarrow> 'f"
  train_batch :: "'m \<Rightarrow> 'x \<Rightarrow> int list \<Rightarrow> 'm \<times> 'f \<times> int list"
  eval_batch :: "'m \<Rightarrow> 'x \<Rightarrow> int list \<Rightarrow> 'f \<times> int list"
  scheduler_step :: "'m \<Rightarrow> 'm"
  save_fault :: "int \<Rightarrow> nat option"

text \<open>\<open>predicted.eq(labels).sum().item()\<close>\<close>

definition count_correct :: "int list \<Rightarrow> int list \<Rightarrow> int" where
  "count_correct predicted labels =
     int (length (filter (\<lambda>(p, l). p = l) (zip predicted labels)))"

text \<open>
  The batch loop of \<open>train_one_epoch\<close>, with its accumulators \<open>running_loss\<close>, \<open>correct\<close>
  and \<open>total\<close>. The progress bar formats \<open>100.0 * correct / total\<close> after every batch,
  which raises when no sample has been seen yet.
\<close>

fun train_batches ::
  "('m, 'x, 'f::plus) collaborators \<Rightarrow> ('x \<times> int list) list \<Rightarrow> 'm \<times> 'f \<times> int \<times> int
     \<Rightarrow> ('m, 'm \<times> 'f \<times> int \<times> int) outcome" where
  "train_batches env [] acc = Ok acc"
| "train_batches env ((images, labels) # rest) (m, running_loss, correct, total_seen) =
     (case train_batch env m images labels of (m', loss, predicted) \<Rightarrow>
        (let running_loss' = running_loss + loss;
             total' = total_seen + int (length labels);
             correct' = correct + count_correct predicted labels
         in if total' = 0 then Raised ZeroDivisionError m'
            else train_batches env rest (m', running_loss', correct', total')))"

definition train_one_epoch ::
  "('m, 'x, 'f::{zero,plus,times,inverse}) collaborators \<Rightarrow> 'm \<Rightarrow> ('x \<times> int list) list
     \<Rightarrow> ('m, 'm \<times> 'f \<times> 'f) outcome" where
  "train_one_epoch env m train_loader =
     (case train_batches env train_loader (m, 0, 0, 0) of
        Raised e m' \<Rightarrow> Raised e m'
      | Ok (m', running_loss, correct, total_seen) \<Rightarrow>
          if length train_loader = 0 then Raised ZeroDivisionError m'
          else if total_seen = 0 then Raised ZeroDivisionError m'
          else Ok (m', running_loss / flt env (int (length train_loader)),
                   flt env 100 * flt env correct / flt env total_seen))"

text \<open>The batch loop of \<open>evaluate\<close>: the model is only read.\<close>

fun eval_batches ::
  "('m, 'x, 'f::plus) collaborators \<Rightarrow> 'm \<Rightarrow> ('x \<times> int list) list \<Rightarrow> 'f \<times> int \<times> int
     \<Rightarrow> error + 'f \<times> int \<times> int" where
  "eval_batches env m [] acc = Inr acc"
| "eval_batches env m ((images, labels) # rest) (running_loss, correct, total_seen) =
     (case eval_batch env m images labels of (loss, predicted) \<Rightarrow>
        (let running_loss' = running_loss + loss;
             total' = total_seen + int (length labels);
             correct' = correct + count_correct predicted labels
         in if total' = 0 then Inl ZeroDivisionError
            else eval_batches env m rest (running_loss', correct', total')))"

definition evaluate ::
  "('m, 'x, 'f::{zero,plus,times,inverse}) collaborators \<Rightarrow> 'm \<Rightarrow> ('x \<times> int list) list
     \<Rightarrow> error + 'f \<times> 'f" where
  "evaluate env m test_loader =
     (case eval_batches env m test_loader (0, 0, 0) of
        Inl e \<Rightarrow> Inl e
      | Inr (running_loss, correct, total_seen) \<Rightarrow>
          if length test_loader = 0 then Inl ZeroDivisionError
          else if total_seen = 0 then Inl ZeroDivisionError
          else Inr (running_loss / flt env (int (length test_loader)),
                    flt env 100 * flt env correct / flt env total_seen))"

text \<open>
  What a pass observes batch by batch: the loss, the predicted classes and the labels.
  In training each batch meets the state the batches before it left.
\<close>

fun train_trace ::
  "('m, 'x, 'f) collaborators \<Rightarrow> 'm \<Rightarrow> ('x \<times> int list) list \<Rightarrow> ('f \<times> int list \<times> int list) list"
  where
  "train_trace env m [] = []"
| "train_trace env m ((images, labels) # rest) =
     (case train_batch env m images labels of (m', loss, predicted) \<Rightarrow>
        (loss, predicted, labels) # train_trace env m' rest)"

definition eval_trace ::
  "('m, 'x, 'f) collaborators \<Rightarrow> 'm \<Rightarrow> ('x \<times> int list) list \<Rightarrow> ('f \<times> int list \<times> int list) list"
  where
  "eval_trace env m loader =
     map (\<lambda>(images, labels). case eval_batch env m images labels of
            (loss, predicted) \<Rightarrow> (loss, predicted, labels)) loader"

text \<open>
  The aggregates as the specification writes them, over the observed batches:
  \<open>sum(batch_losses) / num_batches\<close>, the sum taken from \<open>0.0\<close> in batch order, and
  \<open>100 * correct / total_samples\<close>.
\<close>

definition mean_batch_loss ::
  "('m, 'x, 'f::{zero,plus,inverse}) collaborators \<Rightarrow> ('f \<times> int list \<times> int list) list \<Rightarrow> 'f" where
  "mean_batch_loss env obs = foldl (+) 0 (map fst obs) / flt env (int (length obs))"

definition correct_predictions :: "('f \<times> int list \<times> int list) list \<Rightarrow> int" where
  "correct_predictions obs = (\<Sum>(loss, predicted, labels)\<leftarrow>obs. count_correct predicted labels)"

definition total_samples :: "('f \<times> int list \<times> int list) list \<Rightarrow> int" where
  "total_samples obs = (\<Sum>(loss, predicted, labels)\<leftarrow>obs. int (length labels))"

definition accuracy_percent ::
  "('m, 'x, 'f::{times,inverse}) collaborators \<Rightarrow> ('f \<times> int list \<times> int list) list \<Rightarrow> 'f" where
  "accuracy_percent env obs =
     flt env 100 * flt env (correct_predictions obs) / flt env (total_samples obs)"

section \<open>The training loop: best checkpoint and early stopping (src/train.py, train)\<close>

record config =
  epochs :: int
  early_stopping :: bool
  patience :: int
  scheduler :: string

record 'f history =
  train_loss :: "'f list"
  train_acc :: "'f list"
  test_loss :: "'f list"
  test_acc :: "'f list"

text \<open>The dictionary that \<open>torch.save\<close> is given.\<close>

record ('m, 'f) checkpoint =
  ck_epoch :: int
  ck_state_dicts :: 'm
  ck_test_acc :: 'f
  ck_test_loss :: 'f
  ck_config :: config

text \<open>
  \<open>torch.save(obj, path)\<close> opens \<open>path\<close> for writing, which truncates it, and streams the
  serialised object into it: the file holds the whole checkpoint after a call that
  returned, and the first \<open>k\<close> bytes of it after a call that failed there.
\<close>

datatype 'c saved_file = Complete 'c | Partial 'c nat

fun file_epoch :: "('m, 'f) checkpoint saved_file \<Rightarrow> int" where
  "file_epoch (Complete c) = ck_epoch c"
| "file_epoch (Partial c k) = ck_epoch c"

text \<open>
  The local variables of \<open>train\<close> that the loop mutates. \<open>epoch\<close> is the loop variable,
  unbound before the first iteration. \<open>saves\<close> lists what each \<open>torch.save\<close> call on
  \<open>output_dir / "best_model.pth"\<close> left in the file, newest first; the file on disk is
  the head of the list.
\<close>

record ('m, 'f) train_state =
  learner :: 'm
  history :: "'f history"
  best_test_acc :: 'f
  best_epoch :: int
  epochs_without_improvement :: int
  epoch :: "int option"
  saves :: "('m, 'f) checkpoint saved_file list"

definition best_model_pth :: "('m, 'f) train_state \<Rightarrow> ('m, 'f) checkpoint saved_file option" where
  "best_model_pth st = (case saves st of [] \<Rightarrow> None | f # older \<Rightarrow> Some f)"

definition init_state :: "'m \<Rightarrow> ('m, 'f::zero) train_state" where
  "init_state m =
     \<lparr>learner = m,
      history = \<lparr>train_loss = [], train_acc = [], test_loss = [], test_acc = []\<rparr>,
      best_test_acc = 0, best_epoch = 0, epochs_without_improvement = 0,
      epoch = None, saves = []\<rparr>"

text \<open>
  Lines 259-296, from "Save metrics" to the early-stopping test: the result is the new
  state and whether the loop breaks.
\<close>

definition end_of_epoch ::
  "('m, 'x, 'f::ord) collaborators \<Rightarrow> config \<Rightarrow> int \<Rightarrow> 'f \<times> 'f \<times> 'f \<times> 'f
     \<Rightarrow> ('m, 'f) train_state \<Rightarrow> (('m, 'f) train_state, ('m, 'f) train_state \<times> bool) outcome"
  where
  "end_of_epoch env cfg e metrics st =
     (case metrics of (trl, tra, tel, tea) \<Rightarrow>
        (let h = history st;
             st1 = st\<lparr>history := \<lparr>train_loss = train_loss h @ [trl], train_acc = train_acc h @ [tra],
                                  test_loss = test_loss h @ [tel], test_acc = test_acc h @ [tea]\<rparr>\<rparr>
         in if tea > best_test_acc st1 then
              (let st2 = st1\<lparr>best_test_acc := tea, best_epoch := e,
                             epochs_without_improvement := 0\<rparr>;
                   ck = \<lparr>ck_epoch = e, ck_state_dicts = learner st2, ck_test_acc = tea,
                         ck_test_loss = tel, ck_config = cfg\<rparr>
               in case save_fault env e of
                    Some k \<Rightarrow> Raised IOError (st2\<lparr>saves := Partial ck k # saves st2\<rparr>)
                  | None \<Rightarrow>
                      (let st3 = st2\<lparr>saves := Complete ck # saves st2\<rparr>
                       in Ok (st3, early_stopping cfg
                                   \<and> epochs_without_improvement st3 \<ge> patience cfg)))
            else
              (let st2 = st1\<lparr>epochs_without_improvement := epochs_without_improvement st1 + 1\<rparr>
               in Ok (st2, early_stopping cfg
                           \<and> epochs_without_improvement st2 \<ge> patience cfg))))"

text \<open>The body of the epoch loop.\<close>

definition run_epoch ::
  "('m, 'x, 'f::{zero,plus,times,inverse,ord}) collaborators \<Rightarrow> config
     \<Rightarrow> ('x \<times> int list) list \<Rightarrow> ('x \<times> int list) list \<Rightarrow> int \<Rightarrow> ('m, 'f) train_state
     \<Rightarrow> (('m, 'f) train_state, ('m, 'f) train_state \<times> bool) outcome" where
  "run_epoch env cfg train_loader test_loader e st =
     (case train_one_epoch env (learner st) train_loader of
        Raised err m1 \<Rightarrow> Raised err (st\<lparr>learner := m1, epoch := Some e\<rparr>)
      | Ok (m1, trl, tra) \<Rightarrow>
          (case evaluate env m1 test_loader of
             Inl err \<Rightarrow> Raised err (st\<lparr>learner := m1, epoch := Some e\<rparr>)
           | Inr (tel, tea) \<Rightarrow>
               (let m2 = (if scheduler cfg = ''cosine_annealing'' then scheduler_step env m1
                          else m1)
                in end_of_epoch env cfg e (trl, tra, tel, tea)
                     (st\<lparr>learner := m2, epoch := Some e\<rparr>))))"

text \<open>\<open>for epoch in range(1, config.training.epochs + 1)\<close>, with its \<open>break\<close>.\<close>

fun train_epochs ::
  "('m, 'x, 'f::{zero,plus,times,inverse,ord}) collaborators \<Rightarrow> config
     \<Rightarrow> ('x \<times> int list) list \<Rightarrow> ('x \<times> int list) list \<Rightarrow> int list \<Rightarrow> ('m, 'f) train_state
     \<Rightarrow> (('m, 'f) train_state, ('m, 'f) train_state) outcome" where
  "train_epochs env cfg train_loader test_loader [] st = Ok st"
| "train_epochs env cfg train_loader test_loader (e # es) st =
     (case run_epoch env cfg train_loader test_loader e st of
        Raised err st' \<Rightarrow> Raised err st'
      | Ok (st', stop) \<Rightarrow>
          if stop then Ok st' else train_epochs env cfg train_loader test_loader es st')"

text \<open>
  The final metrics (the wall-clock time, the git hash and the configuration name are
  left out). \<open>epoch\<close> is unbound when the loop ran no iteration.
\<close>

record 'f metrics =
  m_best_test_acc :: 'f
  m_best_epoch :: int
  total_epochs :: int
  final_train_acc :: 'f
  final_test_acc :: 'f

definition final_metrics :: "('m, 'f) train_state \<Rightarrow> error + 'f metrics" where
  "final_metrics st =
     (case epoch st of
        None \<Rightarrow> Inl UnboundLocalError
      | Some e \<Rightarrow>
          if train_acc (history st) = [] \<or> test_acc (history st) = [] then Inl IndexError
          else Inr \<lparr>m_best_test_acc = best_test_acc st, m_best_epoch = best_epoch st,
                    total_epochs = e, final_train_acc = last (train_acc (history st)),
                    final_test_acc = last (test_acc (history st))\<rparr>)"

text \<open>
  \<open>train\<close> from the unpacking of the three loaders that \<open>create_dataloaders\<close> returns
  (line 168) to the returned history and metrics. The third loader is \<open>None\<close> when no
  validation split was asked for.
\<close>

definition train ::
  "('m, 'x, 'f::{zero,plus,times,inverse,ord}) collaborators \<Rightarrow> config \<Rightarrow> 'm
     \<Rightarrow> ('x \<times> int list) list \<times> ('x \<times> int list) list \<times> ('x \<times> int list) list option
     \<Rightarrow> (('m, 'f) train_state, ('m, 'f) train_state \<times> 'f metrics) outcome" where
  "train env cfg model loaders =
     (case loaders of (train_loader, test_loader, val_loader) \<Rightarrow>
        (case train_epochs env cfg train_loader test_loader [1 .. epochs cfg] (init_state model) of
           Raised err st \<Rightarrow> Raised err st
         | Ok st \<Rightarrow>
             (case final_metrics st of
                Inl err \<Rightarrow> Raised err st
              | Inr ms \<Rightarrow> Ok (st, ms))))"

text \<open>The state in which a run ends, whether it returned or raised.\<close>

fun end_state ::
  "(('m, 'f) train_state, ('m, 'f) train_state) outcome \<Rightarrow> ('m, 'f) train_state" where
  "end_state (Ok st) = st"
| "end_state (Raised err st) = st"

text \<open>
  The notions of the specification, over the recorded test accuracies \<open>h\<close> of a run:
  epoch \<open>j + 1\<close> improves when its accuracy strictly exceeds the best value seen before it,
  the best being \<open>0\<close> at the start; the no-improvement count is the number of epochs
  since the last improving one.
\<close>

definition best_so_far :: "'f::{zero,linorder} list \<Rightarrow> 'f" where
  "best_so_far h = Max (insert 0 (set h))"

definition improves :: "'f::{zero,linorder} list \<Rightarrow> nat \<Rightarrow> bool" where
  "improves h j = (h ! j > best_so_far (take j h))"

definition no_improve_count :: "'f::{zero,linorder} list \<Rightarrow> nat" where
  "no_improve_count h = length (takeWhile (\<lambda>j. \<not> improves h j) (rev [0..<length h]))"

definition improving_epochs :: "'f::{zero,linorder} list \<Rightarrow> int list" where
  "improving_epochs h = map (\<lambda>j. int j + 1) (filter (improves h) [0..<length h])"

text \<open>The early-stopping test, on the accuracies recorded so far.\<close>

definition stop_due :: "config \<Rightarrow> 'f::{zero,linorder} list \<Rightarrow> bool" where
  "stop_due cfg h = (early_stopping cfg \<and> patience cfg \<le> int (no_improve_count h))"

fun is_complete :: "'c saved_file \<Rightarrow> bool" where
  "is_complete (Complete c) = True"
| "is_complete (Partial c k) = False"

text \<open>
  What the bookkeeping of \<open>train\<close> maintains from epoch to epoch: the four history lists
  grow together, \<open>best_test_acc\<close> is the best accuracy recorded, the saves are those of
  the improving epochs, \<open>best_epoch\<close> is the last improving epoch and
  \<open>epochs_without_improvement\<close> counts the epochs since.
\<close>

definition run_inv :: "('m, 'f::{zero,linorder}) train_state \<Rightarrow> bool" where
  "run_inv st =
     (let h = test_acc (history st)
      in length (train_loss (history st)) = length h
         \<and> length (train_acc (history st)) = length h
         \<and> length (test_loss (history st)) = length h
         \<and> best_test_acc st = best_so_far h
         \<and> map file_epoch (saves st) = rev (improving_epochs h)
         \<and> best_epoch st = last (0 # improving_epochs h)
         \<and> epochs_without_improvement st = int (no_improve_count h))"

section \<open>An example run\<close>

text \<open>
  A stand-in for the collaborators, over the reals: the state counts the optimizer steps,
  a training batch of two samples has loss 1 and any other loss 4, every training
  prediction is class 0; on the test set every prediction is right after four optimizer
  steps (the second epoch), and otherwise the last prediction of a batch is class 1. With the loaders below the
  test accuracies of a run are 80, 100, 80, 80, 80.
\<close>

definition example_env :: "(nat, unit, real) collaborators" where
  "example_env =
     \<lparr>flt = real_of_int,
      train_batch = (\<lambda>m images labels.
         (m + 1, if length labels = 2 then 1 else 4, map (\<lambda>l. 0) labels)),
      eval_batch = (\<lambda>m images labels.
         (1 / 4, if m = 4 then labels else butlast labels @ [1])),
      scheduler_step = (\<lambda>m. m),
      save_fault = (\<lambda>e. None)\<rparr>"

definition example_train_loader :: "(unit \<times> int list) list" where
  "example_train_loader = [((), [0, 1]), ((), [1])]"

definition example_test_loader :: "(unit \<times> int list) list" where
  "example_test_loader = [((), [0, 0, 0, 0, 0])]"

definition example_config :: config where
  "example_config = \<lparr>epochs = 10, early_stopping = True, patience = 3, scheduler = ''none''\<rparr>"

text \<open>The same collaborators, with a disk that fails the write of epoch 2 at its first byte.\<close>

definition faulty_env :: "(nat, unit, real) collaborators" where
  "faulty_env = example_env\<lparr>save_fault := (\<lambda>e. if e = 2 then Some 0 else None)\<rparr>"

section \<open>Proofs: freeze policy and parameter groups\<close>

lemma fold_upd: "fold (\<lambda>p g. g(p := v)) ps g q = (if q \<in> set ps then v else g q)"
  by (induction ps arbitrary: g) auto

lemma set_requires_grad_simps:
  "features (set_requires_grad ps v m) = features m"
  "classifier (set_requires_grad ps v m) = classifier m"
  "frozen (set_requires_grad ps v m) = frozen m"
  "requires_grad (set_requires_grad ps v m) q = (if q \<in> set ps then v else requires_grad m q)"
  by (simp_all add: set_requires_grad_def fold_upd)

lemma freeze_backbone_simps:
  "features (freeze_backbone m) = features m"
  "classifier (freeze_backbone m) = classifier m"
  "frozen (freeze_backbone m) = True"
  "requires_grad (freeze_backbone m) q = (if q \<in> set (concat (features m)) then False else requires_grad m q)"
  by (simp_all add: freeze_backbone_def backbone_parameters_def set_requires_grad_simps)

lemma unfreeze_backbone_simps:
  "features (unfreeze_backbone m) = features m"
  "classifier (unfreeze_backbone m) = classifier m"
  "frozen (unfreeze_backbone m) = False"
  "requires_grad (unfreeze_backbone m) q = (if q \<in> set (concat (features m)) then True else requires_grad m q)"
  by (simp_all add: unfreeze_backbone_def backbone_parameters_def set_requires_grad_simps)

lemma seq_getitem_nonneg:
  "0 \<le> i \<Longrightarrow> i < int (length xs) \<Longrightarrow> seq_getitem xs i = Inr (xs ! nat i)"
  by (simp add: seq_getitem_def Let_def)

lemma seq_getitem_neg:
  "- int (length xs) \<le> i \<Longrightarrow> i < 0 \<Longrightarrow> seq_getitem xs i = Inr (xs ! nat (int (length xs) + i))"
proof -
  assume a: "- int (length xs) \<le> i" "i < 0"
  have "i mod int (length xs) = (i + int (length xs)) mod int (length xs)" by simp
  also have "\<dots> = i + int (length xs)" using a by (intro mod_pos_pos_trivial) auto
  finally show ?thesis using a by (simp add: seq_getitem_def Let_def add.commute)
qed

lemma seq_getitem_out:
  "i < - int (length xs) \<or> int (length xs) \<le> i \<Longrightarrow> seq_getitem xs i = Inl IndexError"
  by (auto simp add: seq_getitem_def Let_def)

lemma seq_getitem_mem:
  assumes "seq_getitem xs i = Inr x"
  shows "x \<in> set xs"
proof -
  from assms have rng: "- int (length xs) \<le> i" "i < int (length xs)"
    and x: "x = xs ! nat (i mod int (length xs))"
    by (auto simp add: seq_getitem_def Let_def split: if_splits)
  from rng have pos: "0 < int (length xs)" by linarith
  then have "0 \<le> i mod int (length xs)" "i mod int (length xs) < int (length xs)"
    by simp_all
  then have "nat (i mod int (length xs)) < length xs" by linarith
  with x show ?thesis by simp
qed

lemma model_eqI:
  "features a = features b \<Longrightarrow> classifier a = classifier b \<Longrightarrow> frozen a = frozen b
   \<Longrightarrow> (\<And>q. requires_grad a q = requires_grad b q) \<Longrightarrow> (a::model) = b"
  by (cases a, cases b) (auto)

lemma unfreeze_loop_valid:
  "\<forall>i\<in>set is. - int (length (features m)) \<le> i \<and> i < int (length (features m)) \<Longrightarrow>
   unfreeze_loop is m =
     Ok (m\<lparr>requires_grad := \<lambda>q. (\<exists>i\<in>set is. q \<in> set (features m ! nat (i mod int (length (features m))))) \<or> requires_grad m q\<rparr>)"
proof (induction "is" arbitrary: m)
  case Nil
  then show ?case by simp
next
  case (Cons i "is")
  show ?case using Cons.prems
    by (auto simp add: seq_getitem_def Let_def  Cons.IH set_requires_grad_simps intro!: model_eqI)
qed

lemma unfreeze_loop_frame:
  "features (state_of (unfreeze_loop is m)) = features m
   \<and> classifier (state_of (unfreeze_loop is m)) = classifier m
   \<and> frozen (state_of (unfreeze_loop is m)) = frozen m
   \<and> (\<forall>q. q \<notin> set (concat (features m)) \<longrightarrow>
          requires_grad (state_of (unfreeze_loop is m)) q = requires_grad m q)"
proof (induction "is" arbitrary: m)
  case Nil
  then show ?case by simp
next
  case (Cons i "is")
  show ?case
  proof (cases "seq_getitem (features m) i")
    case (Inl e)
    then show ?thesis by simp
  next
    case (Inr block)
    then have "block \<in> set (features m)" by (rule seq_getitem_mem)
    then have "\<And>q. q \<notin> set (concat (features m)) \<Longrightarrow> q \<notin> set block" by auto
    with Inr Cons.IH[of "set_requires_grad block True m"] show ?thesis
      by (simp add: set_requires_grad_simps)
  qed
qed

lemma unfreeze_last_blocks_frame:
  "features (state_of (unfreeze_last_blocks n m)) = features m"
  "classifier (state_of (unfreeze_last_blocks n m)) = classifier m"
  "q \<notin> set (concat (features m)) \<Longrightarrow>
     requires_grad (state_of (unfreeze_last_blocks n m)) q = requires_grad m q"
  unfolding unfreeze_last_blocks_def Let_def
  using unfreeze_loop_frame[of "[int (length (features (freeze_backbone m))) - n ..
                                  int (length (features (freeze_backbone m))) - 1]" "freeze_backbone m"]
  by (simp_all add: freeze_backbone_simps)

lemma apply_op_frame:
  "features (apply_op x m) = features m"
  "classifier (apply_op x m) = classifier m"
  "q \<notin> set (concat (features m)) \<Longrightarrow> requires_grad (apply_op x m) q = requires_grad m q"
  by (cases x; simp add: freeze_backbone_simps unfreeze_backbone_simps unfreeze_last_blocks_frame)+

lemma apply_ops_frame:
  "features (apply_ops xs m) = features m
   \<and> classifier (apply_ops xs m) = classifier m
   \<and> (\<forall>q. q \<notin> set (concat (features m)) \<longrightarrow> requires_grad (apply_ops xs m) q = requires_grad m q)"
  by (induction xs arbitrary: m) (simp_all add: apply_op_frame)

lemma well_formed_head: "well_formed m \<Longrightarrow> p \<in> set (classifier m) \<Longrightarrow> p \<notin> set (concat (features m))"
  unfolding well_formed_def by auto

lemma freeze_backbone_idem: "freeze_backbone (freeze_backbone m) = freeze_backbone m"
  by (rule model_eqI) (simp_all add: freeze_backbone_simps)

lemma ex_wf: "well_formed example_model" by (simp add: well_formed_def example_model_def)

lemma ex_ht: "head_trainable example_model" by (simp add: head_trainable_def example_model_def)

lemma ex2_wf: "well_formed example_last_two" by (simp add: well_formed_def example_last_two_def)

text \<open>
  Claim C7. On a model whose head shares no parameter with the backbone, every sequence
  of \<open>freeze_backbone()\<close>, \<open>unfreeze_backbone()\<close> and \<open>unfreeze_last_blocks(n)\<close> calls
  (for any integer \<open>n\<close>, also one that makes the call raise) leaves the
  \<open>requires_grad\<close> flag of every head parameter as it was, so a trainable head stays
  trainable; after \<open>freeze_backbone()\<close> the trainable parameters of the model are exactly
  the head's, and \<open>freeze_backbone()\<close> is idempotent.
\<close>

theorem head_stays_trainable:
  assumes "well_formed m"
  shows "classifier (apply_ops xs m) = classifier m
         \<and> (\<forall>p\<in>set (classifier m). requires_grad (apply_ops xs m) p = requires_grad m p)
         \<and> (head_trainable m \<longrightarrow> head_trainable (apply_ops xs m))
         \<and> (head_trainable m \<longrightarrow> trainable_parameters (freeze_backbone m) = set (classifier m))
         \<and> freeze_backbone (freeze_backbone m) = freeze_backbone m"
proof -
  have flags: "\<forall>p\<in>set (classifier m). requires_grad (apply_ops xs m) p = requires_grad m p"
    using apply_ops_frame[of xs m] well_formed_head[OF assms] by blast
  have cl: "classifier (apply_ops xs m) = classifier m"
    using apply_ops_frame[of xs m] by simp
  have keep: "head_trainable m \<longrightarrow> head_trainable (apply_ops xs m)"
    using flags cl by (simp add: head_trainable_def list_all_iff)
  have only: "head_trainable m \<longrightarrow> trainable_parameters (freeze_backbone m) = set (classifier m)"
    using well_formed_head[OF assms]
    by (auto simp add: head_trainable_def list_all_iff trainable_parameters_def freeze_backbone_simps)
  show ?thesis using flags cl keep only freeze_backbone_idem by simp
qed

text \<open>
  Witness for C7: on the example model the head is still trainable after five policy
  calls, one of them out of range, and freezing leaves only the head parameters 9 and 10.
\<close>

theorem head_stays_trainable_witness:
  "well_formed example_model \<and> head_trainable example_model
   \<and> head_trainable (apply_ops [UnfreezeLastBlocks 2, FreezeBackbone, UnfreezeLastBlocks 20,
                                  UnfreezeBackbone, FreezeBackbone] example_model)
   \<and> trainable_parameters (freeze_backbone example_model) = {9, 10}"
proof -
  have "set (classifier example_model) = {9, 10}" by (simp add: example_model_def)
  then show ?thesis
    using head_stays_trainable[OF ex_wf,
        of "[UnfreezeLastBlocks 2, FreezeBackbone, UnfreezeLastBlocks 20,
             UnfreezeBackbone, FreezeBackbone]"] ex_wf ex_ht
    by simp
qed

lemma unfreeze_last_blocks_in_range:
  assumes "0 \<le> n" "n \<le> int (length (features m))"
  shows "unfreeze_last_blocks n m =
     Ok (m\<lparr>requires_grad := \<lambda>q. if q \<in> set (concat (features m))
                                 then q \<in> params_of_last_blocks m n else requires_grad m q,
           frozen := True\<rparr>)"
proof -
  let ?t = "int (length (features m))"
  let ?m1 = "freeze_backbone m"
  have valid: "\<forall>i\<in>set [?t - n .. ?t - 1].
                 - int (length (features ?m1)) \<le> i \<and> i < int (length (features ?m1))"
    using assms by (auto simp add: freeze_backbone_simps)
  have blocks: "(\<exists>i\<in>set [?t - n .. ?t - 1]. q \<in> set (features m ! nat (i mod ?t)))
                 = (q \<in> params_of_last_blocks m n)" for q
  proof
    assume "\<exists>i\<in>set [?t - n .. ?t - 1]. q \<in> set (features m ! nat (i mod ?t))"
    then obtain i where i: "?t - n \<le> i" "i \<le> ?t - 1" "q \<in> set (features m ! nat (i mod ?t))"
      by auto
    with assms have "0 \<le> i" "i < ?t" by auto
    then have "i mod ?t = i" by simp
    with i \<open>0 \<le> i\<close> \<open>i < ?t\<close> show "q \<in> params_of_last_blocks m n"
      unfolding params_of_last_blocks_def by (auto intro!: exI[of _ "nat i"])
  next
    assume "q \<in> params_of_last_blocks m n"
    then obtain j where j: "?t - n \<le> int j" "j < length (features m)" "q \<in> set (features m ! j)"
      unfolding params_of_last_blocks_def by auto
    then have "int j mod ?t = int j" by simp
    with j show "\<exists>i\<in>set [?t - n .. ?t - 1]. q \<in> set (features m ! nat (i mod ?t))"
      by (intro bexI[of _ "int j"]) auto
  qed
  have sub: "q \<in> params_of_last_blocks m n \<Longrightarrow> q \<in> set (concat (features m))" for q
    unfolding params_of_last_blocks_def by auto
  have store: "((\<exists>i\<in>set [?t - n .. ?t - 1]. q \<in> set (features m ! nat (i mod ?t)))
                  \<or> requires_grad ?m1 q)
               = (if q \<in> set (concat (features m)) then q \<in> params_of_last_blocks m n
                  else requires_grad m q)" for q
    unfolding blocks using sub[of q] by (auto simp add: freeze_backbone_simps)
  have "unfreeze_loop [?t - n .. ?t - 1] ?m1 =
          Ok (?m1\<lparr>requires_grad := \<lambda>q. (\<exists>i\<in>set [?t - n .. ?t - 1].
                 q \<in> set (features m ! nat (i mod ?t))) \<or> requires_grad ?m1 q\<rparr>)"
    using unfreeze_loop_valid[OF valid] by (simp only: freeze_backbone_simps)
  also have "?m1\<lparr>requires_grad := \<lambda>q. (\<exists>i\<in>set [?t - n .. ?t - 1].
                 q \<in> set (features m ! nat (i mod ?t))) \<or> requires_grad ?m1 q\<rparr>
             = m\<lparr>requires_grad := \<lambda>q. if q \<in> set (concat (features m))
                                 then q \<in> params_of_last_blocks m n else requires_grad m q,
                 frozen := True\<rparr>"
  proof (rule model_eqI)
    fix q
    show "requires_grad (?m1\<lparr>requires_grad := \<lambda>q. (\<exists>i\<in>set [?t - n .. ?t - 1].
                 q \<in> set (features m ! nat (i mod ?t))) \<or> requires_grad ?m1 q\<rparr>) q
          = requires_grad (m\<lparr>requires_grad := \<lambda>q. if q \<in> set (concat (features m))
                                 then q \<in> params_of_last_blocks m n else requires_grad m q,
                 frozen := True\<rparr>) q"
      using store[of q] by simp
  qed (simp_all add: freeze_backbone_simps)
  finally show ?thesis
    unfolding unfreeze_last_blocks_def Let_def by (simp only: freeze_backbone_simps)
qed

text \<open>
  The state after \<open>unfreeze_last_blocks(n)\<close> for a count in range, from any state with a
  trainable head.
\<close>

lemma last_blocks_state:
  assumes "0 \<le> n" and "n \<le> int (length (features m))"
    and "well_formed m" and "head_trainable m"
  shows "\<exists>m'. unfreeze_last_blocks n m = Ok m'
           \<and> features m' = features m \<and> classifier m' = classifier m
           \<and> (\<forall>p\<in>set (concat (features m)) \<union> set (classifier m).
                  requires_grad m' p \<longleftrightarrow> p \<in> params_of_last_blocks m n \<union> set (classifier m))
           \<and> unfreeze_last_blocks n m' = Ok m'
           \<and> (\<forall>k. 0 \<le> k \<and> k \<le> int (length (features m)) \<longrightarrow>
                  unfreeze_last_blocks k m' = unfreeze_last_blocks k m)"
proof -
  define m' where "m' = m\<lparr>requires_grad := \<lambda>q. if q \<in> set (concat (features m))
                                 then q \<in> params_of_last_blocks m n else requires_grad m q,
                          frozen := True\<rparr>"
  have run: "unfreeze_last_blocks n m = Ok m'"
    unfolding m'_def by (rule unfreeze_last_blocks_in_range[OF assms(1,2)])
  have str: "features m' = features m" "classifier m' = classifier m"
    by (simp_all add: m'_def)
  have same: "params_of_last_blocks m' k = params_of_last_blocks m k" for k
    by (simp add: params_of_last_blocks_def str)
  have again: "unfreeze_last_blocks k m' = unfreeze_last_blocks k m"
    if "0 \<le> k" "k \<le> int (length (features m))" for k
  proof -
    have "unfreeze_last_blocks k m' = Ok (m'\<lparr>requires_grad := \<lambda>q. if q \<in> set (concat (features m'))
                                 then q \<in> params_of_last_blocks m' k else requires_grad m' q,
                          frozen := True\<rparr>)"
      using that by (intro unfreeze_last_blocks_in_range) (simp_all add: str)
    also have "m'\<lparr>requires_grad := \<lambda>q. if q \<in> set (concat (features m'))
                                 then q \<in> params_of_last_blocks m' k else requires_grad m' q,
                          frozen := True\<rparr>
               = m\<lparr>requires_grad := \<lambda>q. if q \<in> set (concat (features m))
                                 then q \<in> params_of_last_blocks m k else requires_grad m q,
                          frozen := True\<rparr>"
      by (rule model_eqI) (simp_all add: same str, simp_all add: m'_def)
    also have "Ok \<dots> = unfreeze_last_blocks k m"
      using that by (simp add: unfreeze_last_blocks_in_range)
    finally show ?thesis .
  qed
  have exact: "\<forall>p\<in>set (concat (features m)) \<union> set (classifier m).
                  requires_grad m' p \<longleftrightarrow> p \<in> params_of_last_blocks m n \<union> set (classifier m)"
    using well_formed_head[OF assms(3)] assms(4)
    by (auto simp add: m'_def head_trainable_def list_all_iff)
  have "unfreeze_last_blocks n m' = Ok m'"
    using again[OF assms(1,2)] run by simp
  with run str exact again show ?thesis by blast
qed

lemma init_model_simps:
  "features (init_model blocks head fz) = blocks"
  "classifier (init_model blocks head fz) = head"
  "q \<notin> set (concat blocks) \<Longrightarrow> requires_grad (init_model blocks head fz) q"
  by (simp_all add: init_model_def Let_def freeze_backbone_simps)

text \<open>Every state the class can reach from its constructor is well formed, with a trainable head.\<close>

lemma reachable_state:
  assumes "distinct (concat blocks @ head)" and "m = apply_ops ops (init_model blocks head fz)"
  shows "features m = blocks \<and> classifier m = head \<and> well_formed m \<and> head_trainable m"
proof -
  from apply_ops_frame[of ops "init_model blocks head fz"] assms(2)
  have f: "features m = blocks" and c: "classifier m = head"
    and keep: "\<forall>q. q \<notin> set (concat blocks) \<longrightarrow>
                 requires_grad m q = requires_grad (init_model blocks head fz) q"
    by (simp_all add: init_model_simps)
  from assms(1) have "\<forall>q\<in>set head. q \<notin> set (concat blocks)" by auto
  with keep have "\<forall>q\<in>set head. requires_grad m q" by (simp add: init_model_simps)
  with f c assms(1) show ?thesis
    by (simp add: well_formed_def head_trainable_def list_all_iff)
qed

text \<open>
  Claim C1. Take any state the model can be in: built by the constructor, frozen or not,
  then changed by any sequence of \<open>freeze_backbone()\<close>, \<open>unfreeze_backbone()\<close> and
  \<open>unfreeze_last_blocks(k)\<close> calls. For \<open>0 \<le> n \<le> total_blocks\<close>, \<open>unfreeze_last_blocks(n)\<close>
  returns, and afterwards the trainable parameters of the model are exactly those of the
  blocks \<open>total_blocks - n, \<dots>, total_blocks - 1\<close> and of the head; every other backbone
  parameter is frozen. Calling it again with the same \<open>n\<close> changes nothing, and a following
  call with any \<open>k\<close> in range gives what the call with \<open>k\<close> alone gives: the effect is not
  cumulative. The one assumption is the data model's: no parameter belongs to two blocks
  or to a block and the head.
\<close>

theorem unfreeze_last_blocks_exact:
  assumes "distinct (concat blocks @ head)"
    and "m = apply_ops ops (init_model blocks head fz)"
    and "0 \<le> n" and "n \<le> int (length blocks)"
  shows "\<exists>m'. unfreeze_last_blocks n m = Ok m'
           \<and> features m' = blocks \<and> classifier m' = head
           \<and> trainable_parameters m' = params_of_last_blocks m n \<union> set head
           \<and> unfreeze_last_blocks n m' = Ok m'
           \<and> (\<forall>k. 0 \<le> k \<and> k \<le> int (length blocks) \<longrightarrow>
                  unfreeze_last_blocks k m' = unfreeze_last_blocks k m)"
proof -
  from reachable_state[OF assms(1,2)]
  have f: "features m = blocks" and c: "classifier m = head"
    and wf: "well_formed m" and ht: "head_trainable m" by simp_all
  from assms(3,4) f have rng: "0 \<le> n" "n \<le> int (length (features m))" by simp_all
  from last_blocks_state[OF rng wf ht] obtain m' where
    m': "unfreeze_last_blocks n m = Ok m'" "features m' = features m" "classifier m' = classifier m"
      "\<forall>p\<in>set (concat (features m)) \<union> set (classifier m).
          requires_grad m' p \<longleftrightarrow> p \<in> params_of_last_blocks m n \<union> set (classifier m)"
      "unfreeze_last_blocks n m' = Ok m'"
      "\<forall>k. 0 \<le> k \<and> k \<le> int (length (features m)) \<longrightarrow>
          unfreeze_last_blocks k m' = unfreeze_last_blocks k m"
    by blast
  have sub: "q \<in> set (concat (features m))" if "q \<in> params_of_last_blocks m n" for q
    using that unfolding params_of_last_blocks_def by auto
  have "trainable_parameters m' = params_of_last_blocks m n \<union> set (classifier m)"
    unfolding trainable_parameters_def m'(2,3) using m'(4) sub by blast
  with m' f c show ?thesis by auto
qed

text \<open>
  Witness for C1: on the eight-block example, as the constructor builds it unfrozen,
  \<open>unfreeze_last_blocks(2)\<close> leaves exactly the parameters 6, 7, 8 of blocks 6 and 7 and
  the head parameters 9, 10 trainable.
\<close>

theorem unfreeze_last_blocks_exact_witness:
  "distinct (concat (features example_model) @ classifier example_model)
   \<and> example_model
       = apply_ops [] (init_model (features example_model) (classifier example_model) False)
   \<and> 0 \<le> (2::int) \<and> 2 \<le> int (length (features example_model))
   \<and> (\<exists>m'. unfreeze_last_blocks 2 example_model = Ok m'
          \<and> trainable_parameters m' = {6, 7, 8, 9, 10}
          \<and> unfreeze_last_blocks 2 m' = Ok m'
          \<and> unfreeze_last_blocks 1 m' = unfreeze_last_blocks 1 example_model)"
proof -
  have d: "distinct (concat (features example_model) @ classifier example_model)"
    by (simp add: example_model_def)
  have i: "example_model
       = apply_ops [] (init_model (features example_model) (classifier example_model) False)"
    by (simp add: init_model_def example_model_def)
  have h: "0 \<le> (2::int)" "2 \<le> int (length (features example_model))"
    by (simp_all add: example_model_def)
  have last2: "params_of_last_blocks example_model 2 = {6, 7, 8}"
  proof
    show "params_of_last_blocks example_model 2 \<subseteq> {6, 7, 8}"
    proof
      fix p assume "p \<in> params_of_last_blocks example_model 2"
      then obtain i where "6 \<le> i" "i < 8" "p \<in> set (features example_model ! i)"
        unfolding params_of_last_blocks_def by (auto simp add: example_model_def)
      moreover from this have "i = 6 \<or> i = 7" by linarith
      ultimately show "p \<in> {6, 7, 8}" by (auto simp add: example_model_def)
    qed
    have "6 \<in> params_of_last_blocks example_model 2"
      unfolding params_of_last_blocks_def
      by (auto simp add: example_model_def intro!: exI[of _ 6])
    moreover have "7 \<in> params_of_last_blocks example_model 2"
      unfolding params_of_last_blocks_def
      by (auto simp add: example_model_def intro!: exI[of _ 6])
    moreover have "8 \<in> params_of_last_blocks example_model 2"
      unfolding params_of_last_blocks_def
      by (auto simp add: example_model_def intro!: exI[of _ 7])
    ultimately show "{6, 7, 8} \<subseteq> params_of_last_blocks example_model 2" by simp
  qed
  from unfreeze_last_blocks_exact[OF d i h]
  obtain m' where m': "unfreeze_last_blocks 2 example_model = Ok m'"
    "trainable_parameters m' = params_of_last_blocks example_model 2 \<union> set (classifier example_model)"
    "unfreeze_last_blocks 2 m' = Ok m'"
    "\<forall>k. 0 \<le> k \<and> k \<le> int (length (features example_model)) \<longrightarrow>
                  unfreeze_last_blocks k m' = unfreeze_last_blocks k example_model"
    by blast
  have "unfreeze_last_blocks 1 m' = unfreeze_last_blocks 1 example_model"
    using m'(4) by (simp add: example_model_def)
  moreover have "trainable_parameters m' = {6, 7, 8, 9, 10}"
    unfolding m'(2) last2 by (auto simp add: example_model_def)
  ultimately show ?thesis using d i h m'(1,3) by blast
qed

lemma unfreeze_last_blocks_wraps:
  assumes "int (length (features m)) < n" and "n \<le> 2 * int (length (features m))"
  shows "unfreeze_last_blocks n m =
     Ok (m\<lparr>requires_grad := \<lambda>q. q \<in> set (concat (features m)) \<or> requires_grad m q,
           frozen := True\<rparr>)"
proof -
  let ?t = "int (length (features m))"
  let ?m1 = "freeze_backbone m"
  have valid: "\<forall>i\<in>set [?t - n .. ?t - 1].
                 - int (length (features ?m1)) \<le> i \<and> i < int (length (features ?m1))"
    using assms by (auto simp add: freeze_backbone_simps)
  have blocks: "(\<exists>i\<in>set [?t - n .. ?t - 1]. q \<in> set (features m ! nat (i mod ?t)))
                 = (q \<in> set (concat (features m)))" for q
  proof
    assume "\<exists>i\<in>set [?t - n .. ?t - 1]. q \<in> set (features m ! nat (i mod ?t))"
    then obtain i where i: "?t - n \<le> i" "i \<le> ?t - 1" "q \<in> set (features m ! nat (i mod ?t))"
      by auto
    from i assms have pos: "0 < ?t" by linarith
    then have "0 \<le> i mod ?t" "i mod ?t < ?t" by simp_all
    then have "nat (i mod ?t) < length (features m)" by linarith
    then have "features m ! nat (i mod ?t) \<in> set (features m)" by (rule nth_mem)
    with i show "q \<in> set (concat (features m))" by auto
  next
    assume "q \<in> set (concat (features m))"
    then obtain b where "b \<in> set (features m)" "q \<in> set b" by auto
    then obtain j where j: "j < length (features m)" "features m ! j = b"
      by (auto simp add: in_set_conv_nth)
    then have "int j mod ?t = int j" by simp
    with j \<open>q \<in> set b\<close> assms
    show "\<exists>i\<in>set [?t - n .. ?t - 1]. q \<in> set (features m ! nat (i mod ?t))"
      by (intro bexI[of _ "int j"]) auto
  qed
  have "unfreeze_loop [?t - n .. ?t - 1] ?m1 =
          Ok (?m1\<lparr>requires_grad := \<lambda>q. (\<exists>i\<in>set [?t - n .. ?t - 1].
                 q \<in> set (features m ! nat (i mod ?t))) \<or> requires_grad ?m1 q\<rparr>)"
    using unfreeze_loop_valid[OF valid] by (simp only: freeze_backbone_simps)
  also have "?m1\<lparr>requires_grad := \<lambda>q. (\<exists>i\<in>set [?t - n .. ?t - 1].
                 q \<in> set (features m ! nat (i mod ?t))) \<or> requires_grad ?m1 q\<rparr>
             = m\<lparr>requires_grad := \<lambda>q. q \<in> set (concat (features m)) \<or> requires_grad m q,
                 frozen := True\<rparr>"
  proof (rule model_eqI)
    fix q
    show "requires_grad (?m1\<lparr>requires_grad := \<lambda>q. (\<exists>i\<in>set [?t - n .. ?t - 1].
                 q \<in> set (features m ! nat (i mod ?t))) \<or> requires_grad ?m1 q\<rparr>) q
          = requires_grad (m\<lparr>requires_grad := \<lambda>q. q \<in> set (concat (features m)) \<or> requires_grad m q,
                 frozen := True\<rparr>) q"
      using blocks[of q] by (simp add: freeze_backbone_simps)
  qed (simp_all add: freeze_backbone_simps)
  finally show ?thesis
    unfolding unfreeze_last_blocks_def Let_def by (simp only: freeze_backbone_simps)
qed

lemma unfreeze_last_blocks_raises:
  assumes "2 * int (length (features m)) < n"
  shows "unfreeze_last_blocks n m = Raised IndexError (freeze_backbone m)"
proof -
  let ?t = "int (length (features m))"
  have "?t - n \<le> ?t - 1" using assms by linarith
  then have "[?t - n .. ?t - 1] = (?t - n) # [?t - n + 1 .. ?t - 1]"
    by (rule upto_rec1)
  moreover have "seq_getitem (features (freeze_backbone m)) (?t - n) = Inl IndexError"
    using assms by (intro seq_getitem_out) (simp add: freeze_backbone_simps)
  ultimately show ?thesis
    unfolding unfreeze_last_blocks_def Let_def by (simp add: freeze_backbone_simps)
qed

text \<open>
  Counterexample to C4 as stated: on a model with eight blocks of which six are frozen,
  a configured count of 9 raises nothing, and the six frozen blocks come out trainable.
\<close>

theorem unfreeze_out_of_range_accepted:
  "int (length (features example_last_two)) < 9
   \<and> returned (configure_unfreeze 9 example_last_two)
   \<and> map (requires_grad (state_of (configure_unfreeze 9 example_last_two))) [0, 1, 2, 3, 4, 5]
       = [True, True, True, True, True, True]"
  by (simp add: configure_unfreeze_def unfreeze_last_blocks_def freeze_backbone_def
      backbone_parameters_def set_requires_grad_def seq_getitem_def example_last_two_def
      upto.simps)

text \<open>
  Claim C4, as amended. A count \<open>n > total_blocks\<close> reaches \<open>unfreeze_last_blocks\<close>
  unchecked, also from the configuration. For \<open>total_blocks < n \<le> 2 * total_blocks\<close> the
  negative block indices read from the end of \<open>features\<close>: the call returns and every
  backbone parameter is trainable. For \<open>n > 2 * total_blocks\<close> the first block lookup
  raises \<open>IndexError\<close>, after the backbone has been frozen.
\<close>

theorem unfreeze_beyond_total:
  assumes "int (length (features m)) < n"
  shows "configure_unfreeze n m = unfreeze_last_blocks n m
     \<and> (n \<le> 2 * int (length (features m)) \<longrightarrow>
          unfreeze_last_blocks n m =
            Ok (m\<lparr>requires_grad := \<lambda>q. q \<in> set (concat (features m)) \<or> requires_grad m q,
                  frozen := True\<rparr>))
     \<and> (2 * int (length (features m)) < n \<longrightarrow>
          unfreeze_last_blocks n m = Raised IndexError (freeze_backbone m))"
proof -
  from assms have "0 < n" by linarith
  then have "configure_unfreeze n m = unfreeze_last_blocks n m"
    by (simp add: configure_unfreeze_def)
  with assms show ?thesis
    by (simp add: unfreeze_last_blocks_wraps unfreeze_last_blocks_raises)
qed

text \<open>
  Witness for the amended C4 on the eight-block example: a count of 9 is accepted, a
  count of 17 raises.
\<close>

theorem unfreeze_beyond_total_witness:
  "int (length (features example_model)) < 9
   \<and> (\<exists>m'. configure_unfreeze 9 example_model = Ok m' \<and> requires_grad m' 0)
   \<and> configure_unfreeze 17 example_model = Raised IndexError (freeze_backbone example_model)"
proof -
  have h: "int (length (features example_model)) < 9" "int (length (features example_model)) < 17"
    by (simp_all add: example_model_def)
  show ?thesis
    using h unfreeze_beyond_total[OF h(1)] unfreeze_beyond_total[OF h(2)]
    by (simp add: example_model_def)
qed

lemma upto_as_upt: "[int a .. int b - 1] = map int [a..<b]"
proof (induction b)
  case 0
  then show ?case by simp
next
  case (Suc b)
  show ?case
  proof (cases "a \<le> b")
    case True
    then have "[int a .. int (Suc b) - 1] = [int a .. int b - 1] @ [int b]"
      using upto_rec2[of "int a" "int b"] by simp
    with True Suc show ?thesis by simp
  next
    case False
    then show ?thesis by simp
  qed
qed

lemma collect_trainable_valid:
  "\<forall>i\<in>set is. i < length (features m) \<Longrightarrow>
   collect_trainable (map int is) m acc =
     Inr (acc @ filter (requires_grad m) (concat (map ((!) (features m)) is)))"
  by (induction "is" arbitrary: acc) (simp_all add: seq_getitem_nonneg)

lemma map_nth_upt: "b \<le> length xs \<Longrightarrow> map ((!) xs) [a..<b] = take (b - a) (drop a xs)"
  by (rule nth_equalityI) auto

lemma set_blocks_upt:
  "set (concat (map ((!) fs) [a..<b])) = {p. \<exists>i. a \<le> i \<and> i < b \<and> p \<in> set (fs ! i)}"
  by auto

lemma get_parameter_groups_eq:
  assumes "2 \<le> length (features m)"
  shows "get_parameter_groups lc ll lm m =
     Inr (add_group (filter (requires_grad m) (classifier m)) lc ''classifier''
           (add_group (filter (requires_grad m) (concat (drop (length (features m) - 2) (features m))))
              ll ''last_blocks''
             (add_group (filter (requires_grad m) (concat (take (length (features m) - 2) (features m))))
                lm ''mid_layers'' [])))"
proof -
  let ?t = "length (features m)"
  let ?k = "?t - 2"
  have r1: "[0 .. int ?t - 2 - 1] = map int [0..<?k]"
    using assms upto_as_upt[of 0 ?k] by (simp add: of_nat_diff)
  have r2: "[int ?t - 2 .. int ?t - 1] = map int [?k..<?t]"
    using assms upto_as_upt[of ?k ?t] by (simp add: of_nat_diff)
  have v1: "\<forall>i\<in>set [0..<?k]. i < ?t" and v2: "\<forall>i\<in>set [?k..<?t]. i < ?t"
    by auto
  have c1: "collect_trainable (map int [0..<?k]) m [] =
              Inr (filter (requires_grad m) (concat (take ?k (features m))))"
    using collect_trainable_valid[OF v1, of "[]"] map_nth_upt[of ?k "features m" 0]
    by simp
  have c2: "collect_trainable (map int [?k..<?t]) m [] =
              Inr (filter (requires_grad m) (concat (drop ?k (features m))))"
    using collect_trainable_valid[OF v2, of "[]"] map_nth_upt[of ?t "features m" ?k]
    by simp
  show ?thesis
    unfolding get_parameter_groups_def Let_def r1 r2 c1 c2 by simp
qed

lemma set_take_blocks:
  "set (filter (requires_grad m) (concat (take k (features m)))) = trainable_in_blocks m 0 k"
proof -
  have "take k (features m) = take (min k (length (features m))) (features m)"
    by (cases "k \<le> length (features m)") (simp_all add: min_def)
  then have "take k (features m) = map ((!) (features m)) [0..<min k (length (features m))]"
    using map_nth_upt[of "min k (length (features m))" "features m" 0] by simp
  then show ?thesis
    unfolding trainable_in_blocks_def by (auto simp add: set_blocks_upt)
qed

lemma set_drop_blocks:
  "set (filter (requires_grad m) (concat (drop k (features m))))
     = trainable_in_blocks m k (length (features m))"
proof -
  have "drop k (features m) = map ((!) (features m)) [k..<length (features m)]"
    using map_nth_upt[of "length (features m)" "features m" k] by simp
  then show ?thesis
    unfolding trainable_in_blocks_def by (auto simp add: set_blocks_upt)
qed

text \<open>
  Claim C6. For every trainability state of a well-formed model with at least two blocks,
  \<open>get_parameter_groups\<close> returns groups whose parameter lists are non-empty, contain no
  parameter twice (neither in two groups nor twice in one) and together hold exactly the
  trainable parameters of the model. The groups are named \<open>mid_layers\<close>, \<open>last_blocks\<close>
  and \<open>classifier\<close>, at most one of each: \<open>mid_layers\<close> holds the trainable parameters of
  the blocks \<open>[0, total_blocks - 2)\<close>, \<open>last_blocks\<close> those of the blocks
  \<open>[total_blocks - 2, total_blocks)\<close>, \<open>classifier\<close> the trainable head parameters, each
  with its own learning rate, and a group is absent exactly when it would be empty.
\<close>

theorem parameter_groups_partition:
  assumes "well_formed m" and "2 \<le> length (features m)"
  shows "\<exists>groups. get_parameter_groups lr_classifier lr_last_blocks lr_mid_layers m = Inr groups
     \<and> (\<forall>g\<in>set groups. params g \<noteq> [])
     \<and> distinct (concat (map params groups))
     \<and> set (concat (map params groups)) = trainable_parameters m
     \<and> distinct (map name groups)
     \<and> set (map name groups) \<subseteq> {''mid_layers'', ''last_blocks'', ''classifier''}
     \<and> (case group_named ''mid_layers'' groups of
           None \<Rightarrow> trainable_in_blocks m 0 (length (features m) - 2) = {}
         | Some g \<Rightarrow> set (params g) = trainable_in_blocks m 0 (length (features m) - 2)
                      \<and> lr g = lr_mid_layers)
     \<and> (case group_named ''last_blocks'' groups of
           None \<Rightarrow> trainable_in_blocks m (length (features m) - 2) (length (features m)) = {}
         | Some g \<Rightarrow> set (params g)
                        = trainable_in_blocks m (length (features m) - 2) (length (features m))
                      \<and> lr g = lr_last_blocks)
     \<and> (case group_named ''classifier'' groups of
           None \<Rightarrow> {p \<in> set (classifier m). requires_grad m p} = {}
         | Some g \<Rightarrow> set (params g) = {p \<in> set (classifier m). requires_grad m p}
                      \<and> lr g = lr_classifier)"
proof -
  let ?k = "length (features m) - 2"
  let ?mid = "filter (requires_grad m) (concat (take ?k (features m)))"
  let ?last = "filter (requires_grad m) (concat (drop ?k (features m)))"
  let ?cls = "filter (requires_grad m) (classifier m)"
  let ?groups = "add_group ?cls lr_classifier ''classifier''
                  (add_group ?last lr_last_blocks ''last_blocks''
                    (add_group ?mid lr_mid_layers ''mid_layers'' []))"
  have run: "get_parameter_groups lr_classifier lr_last_blocks lr_mid_layers m = Inr ?groups"
    by (rule get_parameter_groups_eq[OF assms(2)])
  have cat: "concat (map params ?groups) = ?mid @ ?last @ ?cls"
    by (simp add: add_group_def)
  have all: "?mid @ ?last @ ?cls = filter (requires_grad m) (concat (features m) @ classifier m)"
  proof -
    have "concat (features m) = concat (take ?k (features m)) @ concat (drop ?k (features m))"
      by (metis append_take_drop_id concat_append)
    then show ?thesis by simp
  qed
  have d: "distinct (concat (map params ?groups))"
    unfolding cat all using assms(1) by (simp add: well_formed_def del: filter_append)
  have s: "set (concat (map params ?groups)) = trainable_parameters m"
    unfolding cat all trainable_parameters_def by auto
  have ne: "\<forall>g\<in>set ?groups. params g \<noteq> []"
    by (simp add: add_group_def)
  have nm: "distinct (map name ?groups)"
       "set (map name ?groups) \<subseteq> {''mid_layers'', ''last_blocks'', ''classifier''}"
    by (auto simp add: add_group_def)
  have g1: "case group_named ''mid_layers'' ?groups of
           None \<Rightarrow> trainable_in_blocks m 0 ?k = {}
         | Some g \<Rightarrow> set (params g) = trainable_in_blocks m 0 ?k \<and> lr g = lr_mid_layers"
    unfolding set_take_blocks[symmetric]
    by (simp add: add_group_def group_named_def)
  have g2: "case group_named ''last_blocks'' ?groups of
           None \<Rightarrow> trainable_in_blocks m ?k (length (features m)) = {}
         | Some g \<Rightarrow> set (params g) = trainable_in_blocks m ?k (length (features m))
                      \<and> lr g = lr_last_blocks"
    unfolding set_drop_blocks[symmetric]
    by (simp add: add_group_def group_named_def)
  have g3: "case group_named ''classifier'' ?groups of
           None \<Rightarrow> {p \<in> set (classifier m). requires_grad m p} = {}
         | Some g \<Rightarrow> set (params g) = {p \<in> set (classifier m). requires_grad m p}
                      \<and> lr g = lr_classifier"
    by (auto simp add: add_group_def group_named_def filter_empty_conv)
  from run ne d s nm g1 g2 g3 show ?thesis by blast
qed

text \<open>
  Witness for C6, the end-to-end scenario of the specification: with eight blocks of which
  the last two are trainable, the groups are \<open>last_blocks\<close> and \<open>classifier\<close> only.
\<close>

theorem parameter_groups_partition_witness:
  "well_formed example_last_two \<and> 2 \<le> length (features example_last_two)
   \<and> get_parameter_groups (10::nat) 20 30 example_last_two =
        Inr [\<lparr>params = [6, 7, 8], lr = 20, name = ''last_blocks''\<rparr>,
             \<lparr>params = [9, 10], lr = 10, name = ''classifier''\<rparr>]
   \<and> trainable_parameters example_last_two = {6, 7, 8, 9, 10}
   \<and> trainable_in_blocks example_last_two 0 6 = {}"
proof -
  let ?groups = "[\<lparr>params = [6, 7, 8], lr = 20::nat, name = ''last_blocks''\<rparr>,
                  \<lparr>params = [9, 10], lr = 10, name = ''classifier''\<rparr>]"
  have h: "2 \<le> length (features example_last_two)" by (simp add: example_last_two_def)
  have run: "get_parameter_groups (10::nat) 20 30 example_last_two = Inr ?groups"
    by (simp add: get_parameter_groups_def Let_def add_group_def seq_getitem_def
        example_last_two_def upto.simps)
  from parameter_groups_partition[OF ex2_wf h,
      where lr_classifier = "10::nat" and lr_last_blocks = 20 and lr_mid_layers = 30]
  obtain groups where g:
    "get_parameter_groups (10::nat) 20 30 example_last_two = Inr groups"
    "set (concat (map params groups)) = trainable_parameters example_last_two"
    "case group_named ''mid_layers'' groups of
           None \<Rightarrow> trainable_in_blocks example_last_two 0
                     (length (features example_last_two) - 2) = {}
         | Some g \<Rightarrow> set (params g) = trainable_in_blocks example_last_two 0
                                        (length (features example_last_two) - 2)
                      \<and> lr g = 30"
    by blast
  from g(1) run have eq: "groups = ?groups" by simp
  have len: "length (features example_last_two) - 2 = 6" by (simp add: example_last_two_def)
  have none: "group_named ''mid_layers'' ?groups = None" by (simp add: group_named_def)
  from g(2) have "trainable_parameters example_last_two = {6, 7, 8, 9, 10}"
    unfolding eq by auto
  moreover from g(3) have "trainable_in_blocks example_last_two 0 6 = {}"
    unfolding eq none len by simp
  ultimately have "trainable_parameters example_last_two = {6, 7, 8, 9, 10}"
    and "trainable_in_blocks example_last_two 0 6 = {}" by simp_all
  with ex2_wf h run show ?thesis by blast
qed

section \<open>Proofs: the aggregates of an epoch\<close>

lemma length_train_trace: "length (train_trace env m bs) = length bs"
  by (induction bs arbitrary: m) (auto split: prod.splits)

lemma length_eval_trace: "length (eval_trace env m bs) = length bs"
  by (simp add: eval_trace_def)

lemma train_batches_ok:
  "0 \<le> t \<Longrightarrow> (bs \<noteq> [] \<longrightarrow> 0 < t \<or> snd (hd bs) \<noteq> []) \<Longrightarrow>
   \<exists>m'. train_batches env bs (m, rl, c, t) =
     Ok (m', foldl (+) rl (map fst (train_trace env m bs)),
         c + correct_predictions (train_trace env m bs),
         t + total_samples (train_trace env m bs))"
proof (induction bs arbitrary: m rl c t)
  case Nil
  then show ?case by (simp add: correct_predictions_def total_samples_def)
next
  case (Cons b bs)
  obtain images labels where b: "b = (images, labels)" by (cases b)
  obtain m1 loss predicted where step: "train_batch env m images labels = (m1, loss, predicted)"
    by (cases "train_batch env m images labels")
  have pos: "0 < t + int (length labels)"
    using Cons.prems b by (cases labels) auto
  from Cons.IH[of "t + int (length labels)" m1 "rl + loss" "c + count_correct predicted labels"] pos
  obtain m' where "train_batches env bs (m1, rl + loss, c + count_correct predicted labels,
                     t + int (length labels)) =
     Ok (m', foldl (+) (rl + loss) (map fst (train_trace env m1 bs)),
         c + count_correct predicted labels + correct_predictions (train_trace env m1 bs),
         t + int (length labels) + total_samples (train_trace env m1 bs))"
    by auto
  with pos show ?case
    by (simp add: b step Let_def correct_predictions_def total_samples_def add.assoc)
qed

lemma eval_batches_ok:
  "0 \<le> t \<Longrightarrow> (bs \<noteq> [] \<longrightarrow> 0 < t \<or> snd (hd bs) \<noteq> []) \<Longrightarrow>
   eval_batches env m bs (rl, c, t) =
     Inr (foldl (+) rl (map fst (eval_trace env m bs)),
          c + correct_predictions (eval_trace env m bs),
          t + total_samples (eval_trace env m bs))"
proof (induction bs arbitrary: rl c t)
  case Nil
  then show ?case by (simp add: correct_predictions_def total_samples_def eval_trace_def)
next
  case (Cons b bs)
  obtain images labels where b: "b = (images, labels)" by (cases b)
  obtain loss predicted where step: "eval_batch env m images labels = (loss, predicted)"
    by (cases "eval_batch env m images labels")
  have pos: "0 < t + int (length labels)"
    using Cons.prems b by (cases labels) auto
  from Cons.IH[of "t + int (length labels)" "rl + loss" "c + count_correct predicted labels"] pos
  have "eval_batches env m bs (rl + loss, c + count_correct predicted labels,
                     t + int (length labels)) =
     Inr (foldl (+) (rl + loss) (map fst (eval_trace env m bs)),
         c + count_correct predicted labels + correct_predictions (eval_trace env m bs),
         t + int (length labels) + total_samples (eval_trace env m bs))"
    by auto
  with pos show ?case
    by (simp add: b step Let_def correct_predictions_def total_samples_def eval_trace_def add.assoc)
qed

lemma total_samples_pos:
  "obs \<noteq> [] \<Longrightarrow> snd (snd (hd obs)) \<noteq> [] \<Longrightarrow> 0 < total_samples obs"
proof -
  assume a: "obs \<noteq> []" "snd (snd (hd obs)) \<noteq> []"
  have nonneg: "0 \<le> total_samples xs" for xs :: "('a \<times> int list \<times> int list) list"
    by (induction xs) (auto simp add: total_samples_def)
  from a obtain l p ls rest where "obs = (l, p, ls) # rest" "ls \<noteq> []"
    by (cases obs) auto
  then show ?thesis using nonneg[of rest] by (cases ls) (auto simp add: total_samples_def)
qed

lemma train_trace_Nil: "train_trace env m bs = [] \<longleftrightarrow> bs = []"
  by (cases bs) (auto split: prod.splits)

lemma hd_train_trace:
  "bs \<noteq> [] \<Longrightarrow> snd (snd (hd (train_trace env m bs))) = snd (hd bs)"
  by (cases bs) (auto split: prod.splits)

lemma hd_eval_trace:
  "bs \<noteq> [] \<Longrightarrow> snd (snd (hd (eval_trace env m bs))) = snd (hd bs)"
  by (cases bs) (auto simp add: eval_trace_def split: prod.splits)

text \<open>
  Claim C8. For a loader with at least one batch whose first batch holds at least one
  sample, both \<open>train_one_epoch\<close> and \<open>evaluate\<close> return, and they report as loss the sum
  of the per-batch losses divided by the number of batches (no batch size enters) and as
  accuracy \<open>100\<close> times the number of predictions equal to their label divided by the
  number of samples. This holds whatever the float operations compute, so also with
  rounding. The predicted classes are those \<open>outputs.max(1)\<close> returns.
\<close>

theorem epoch_aggregates:
  fixes env :: "('m, 'x, 'f::{zero,plus,times,inverse}) collaborators"
  assumes "loader \<noteq> []" and "snd (hd loader) \<noteq> []"
  shows "(\<exists>m'. train_one_epoch env m loader =
            Ok (m', mean_batch_loss env (train_trace env m loader),
                accuracy_percent env (train_trace env m loader)))
       \<and> evaluate env m loader =
            Inr (mean_batch_loss env (eval_trace env m loader),
                 accuracy_percent env (eval_trace env m loader))"
proof -
  have t1: "0 < total_samples (train_trace env m loader)"
    using assms by (intro total_samples_pos) (simp_all add: hd_train_trace train_trace_Nil)
  have t2: "0 < total_samples (eval_trace env m loader)"
  proof (rule total_samples_pos)
    show "eval_trace env m loader \<noteq> []" using assms(1) by (simp add: eval_trace_def)
    show "snd (snd (hd (eval_trace env m loader))) \<noteq> []"
      using assms by (simp add: hd_eval_trace)
  qed
  from train_batches_ok[of 0 loader env m 0 0] assms
  obtain m' where "train_batches env loader (m, 0, 0, 0) =
     Ok (m', foldl (+) 0 (map fst (train_trace env m loader)),
         correct_predictions (train_trace env m loader),
         total_samples (train_trace env m loader))"
    by auto
  with assms(1) t1 have "train_one_epoch env m loader =
            Ok (m', mean_batch_loss env (train_trace env m loader),
                accuracy_percent env (train_trace env m loader))"
    by (simp add: train_one_epoch_def mean_batch_loss_def accuracy_percent_def length_train_trace)
  moreover
  from eval_batches_ok[of 0 loader env m 0 0] assms
  have "eval_batches env m loader (0, 0, 0) =
     Inr (foldl (+) 0 (map fst (eval_trace env m loader)),
         correct_predictions (eval_trace env m loader),
         total_samples (eval_trace env m loader))"
    by auto
  with assms(1) t2 have "evaluate env m loader =
            Inr (mean_batch_loss env (eval_trace env m loader),
                 accuracy_percent env (eval_trace env m loader))"
    by (simp add: evaluate_def mean_batch_loss_def accuracy_percent_def length_eval_trace)
  ultimately show ?thesis by blast
qed

text \<open>
  Witness for C8: two training batches of sizes 2 and 1 with losses 1 and 4 give the loss
  \<open>(1 + 4) / 2\<close>, not the sample-weighted \<open>(2 * 1 + 4) / 3\<close>, and one correct
  prediction out of three gives the accuracy \<open>100 / 3\<close>.
\<close>

theorem epoch_aggregates_witness:
  "example_train_loader \<noteq> [] \<and> snd (hd example_train_loader) \<noteq> []
   \<and> train_one_epoch example_env 0 example_train_loader = Ok (2, 5 / 2, 100 / 3)
   \<and> mean_batch_loss example_env (train_trace example_env 0 example_train_loader) = 5 / 2
   \<and> accuracy_percent example_env (train_trace example_env 0 example_train_loader) = 100 / 3
   \<and> evaluate example_env 0 example_train_loader = Inr (1 / 4, 100)"
proof -
  have h: "example_train_loader \<noteq> []" "snd (hd example_train_loader) \<noteq> []"
    by (simp_all add: example_train_loader_def)
  have run: "train_one_epoch example_env 0 example_train_loader = Ok (2, 5 / 2, 100 / 3)"
    by (simp add: train_one_epoch_def example_env_def example_train_loader_def
        count_correct_def)
  have ev: "evaluate example_env 0 example_train_loader = Inr (1 / 4, 100)"
    by (simp add: evaluate_def example_env_def example_train_loader_def count_correct_def)
  from epoch_aggregates[OF h, of example_env 0] run ev h show ?thesis by simp
qed

section \<open>Proofs: the training loop\<close>

lemma best_so_far_snoc:
  fixes a :: "'f::{zero,linorder}"
  shows "best_so_far (h @ [a]) = max a (best_so_far h)"
proof -
  have "insert 0 (set (h @ [a])) = insert a (insert 0 (set h))" by auto
  then show ?thesis by (simp add: best_so_far_def del: set_append)
qed

lemma best_so_far_Nil: "best_so_far [] = 0"
  by (simp add: best_so_far_def)

lemma improves_snoc_old:
  "j < length h \<Longrightarrow> improves (h @ [a]) j = improves h j"
  by (simp add: improves_def nth_append)

lemma improves_snoc_new:
  "improves (h @ [a]) (length h) = (a > best_so_far h)"
  by (simp add: improves_def)

lemma improving_epochs_snoc:
  "improving_epochs (h @ [a]) =
     improving_epochs h @ (if a > best_so_far h then [int (length h) + 1] else [])"
proof -
  have "filter (improves (h @ [a])) [0..<length h] = filter (improves h) [0..<length h]"
    by (rule filter_cong) (simp_all add: improves_snoc_old)
  then show ?thesis
    by (simp add: improving_epochs_def improves_snoc_new)
qed

lemma no_improve_count_snoc:
  "no_improve_count (h @ [a]) = (if a > best_so_far h then 0 else Suc (no_improve_count h))"
proof -
  have "takeWhile (\<lambda>j. \<not> improves (h @ [a]) j) (rev [0..<length h])
        = takeWhile (\<lambda>j. \<not> improves h j) (rev [0..<length h])"
    by (rule takeWhile_cong) (simp_all add: improves_snoc_old)
  then show ?thesis
    by (simp add: no_improve_count_def improves_snoc_new)
qed

lemma no_improve_count_Nil: "no_improve_count [] = 0"
  by (simp add: no_improve_count_def)

lemma improving_epochs_Nil: "improving_epochs [] = []"
  by (simp add: improving_epochs_def)

lemma no_improve_count_step:
  fixes h :: "'f::{zero,linorder} list"
  assumes "h \<noteq> []"
  shows "no_improve_count h \<le> Suc (no_improve_count (butlast h))"
proof -
  from assms have "h = butlast h @ [last h]" by simp
  then have "no_improve_count h = no_improve_count (butlast h @ [last h])" by simp
  then show ?thesis by (simp add: no_improve_count_snoc)
qed

lemma run_inv_init: "run_inv (init_state m)"
  by (simp add: run_inv_def init_state_def best_so_far_Nil improving_epochs_Nil
      no_improve_count_Nil)

lemma run_inv_learner_epoch:
  "run_inv (st\<lparr>learner := m, epoch := e\<rparr>) = run_inv st"
  by (simp add: run_inv_def)

text \<open>One bookkeeping step keeps the invariant and records the accuracy.\<close>

lemma end_of_epoch_Ok:
  fixes st :: "('m, 'f::{zero,linorder}) train_state"
  assumes "run_inv st" and "e = int (length (test_acc (history st))) + 1"
    and "end_of_epoch env cfg e (trl, tra, tel, tea) st = Ok (st', stop)"
  shows "run_inv st' \<and> test_acc (history st') = test_acc (history st) @ [tea]
         \<and> stop = stop_due cfg (test_acc (history st'))
         \<and> (list_all is_complete (saves st) \<longrightarrow> list_all is_complete (saves st'))"
proof (cases "tea > best_test_acc st")
  case True
  with assms(3) obtain
    st': "st' = st\<lparr>history := \<lparr>train_loss = train_loss (history st) @ [trl],
                              train_acc = train_acc (history st) @ [tra],
                              test_loss = test_loss (history st) @ [tel],
                              test_acc = test_acc (history st) @ [tea]\<rparr>,
                  best_test_acc := tea, best_epoch := e, epochs_without_improvement := 0,
                  saves := Complete \<lparr>ck_epoch = e, ck_state_dicts = learner st, ck_test_acc = tea,
                         ck_test_loss = tel, ck_config = cfg\<rparr> # saves st\<rparr>"
    and stop: "stop = (early_stopping cfg \<and> patience cfg \<le> 0)"
    by (auto simp add: end_of_epoch_def Let_def split: option.splits)
  from True assms(1) have gt: "tea > best_so_far (test_acc (history st))"
    by (simp add: run_inv_def Let_def)
  then have mx: "max tea (best_so_far (test_acc (history st))) = tea" by simp
  show ?thesis
    using assms(1,2) gt mx
    by (simp add: st' stop run_inv_def Let_def stop_due_def best_so_far_snoc
        improving_epochs_snoc no_improve_count_snoc)
next
  case False
  with assms(3) have
    st': "st' = st\<lparr>history := \<lparr>train_loss = train_loss (history st) @ [trl],
                              train_acc = train_acc (history st) @ [tra],
                              test_loss = test_loss (history st) @ [tel],
                              test_acc = test_acc (history st) @ [tea]\<rparr>,
                  epochs_without_improvement := epochs_without_improvement st + 1\<rparr>"
    and stop: "stop = (early_stopping cfg \<and> patience cfg \<le> epochs_without_improvement st + 1)"
    by (auto simp add: end_of_epoch_def Let_def)
  from False assms(1) have le: "\<not> tea > best_so_far (test_acc (history st))"
    by (simp add: run_inv_def Let_def)
  then have mx: "max tea (best_so_far (test_acc (history st))) = best_so_far (test_acc (history st))"
    by (auto simp add: max_def)
  show ?thesis
    using assms(1,2) le mx
    by (simp add: st' stop run_inv_def Let_def stop_due_def best_so_far_snoc
        improving_epochs_snoc no_improve_count_snoc add.commute)
qed

lemma end_of_epoch_Raised:
  fixes st :: "('m, 'f::{zero,linorder}) train_state"
  assumes "run_inv st" and "e = int (length (test_acc (history st))) + 1"
    and "end_of_epoch env cfg e (trl, tra, tel, tea) st = Raised err st'"
  shows "run_inv st' \<and> test_acc (history st') = test_acc (history st) @ [tea]
         \<and> err = IOError \<and> tea > best_test_acc st
         \<and> (\<exists>k. save_fault env e = Some k
                \<and> saves st' = Partial \<lparr>ck_epoch = e, ck_state_dicts = learner st,
                     ck_test_acc = tea, ck_test_loss = tel, ck_config = cfg\<rparr> k # saves st)"
proof -
  from assms(3) have True: "tea > best_test_acc st"
    by (auto simp add: end_of_epoch_def Let_def split: if_splits)
  with assms(3) obtain k where k: "save_fault env e = Some k"
    and st': "st' = st\<lparr>history := \<lparr>train_loss = train_loss (history st) @ [trl],
                              train_acc = train_acc (history st) @ [tra],
                              test_loss = test_loss (history st) @ [tel],
                              test_acc = test_acc (history st) @ [tea]\<rparr>,
                  best_test_acc := tea, best_epoch := e, epochs_without_improvement := 0,
                  saves := Partial \<lparr>ck_epoch = e, ck_state_dicts = learner st, ck_test_acc = tea,
                         ck_test_loss = tel, ck_config = cfg\<rparr> k # saves st\<rparr>"
    and err: "err = IOError"
    by (auto simp add: end_of_epoch_def Let_def split: option.splits)
  from True assms(1) have gt: "tea > best_so_far (test_acc (history st))"
    by (simp add: run_inv_def Let_def)
  then have mx: "max tea (best_so_far (test_acc (history st))) = tea" by simp
  show ?thesis
    using assms(1,2) gt mx True k err
    by (simp add: st' run_inv_def Let_def best_so_far_snoc
        improving_epochs_snoc no_improve_count_snoc)
qed

lemma run_epoch_Ok:
  fixes st :: "('m, 'f::{zero,plus,times,inverse,linorder}) train_state"
  assumes "run_inv st" and "e = int (length (test_acc (history st))) + 1"
    and "run_epoch env cfg trn tst e st = Ok (st', stop)"
  shows "run_inv st' \<and> (\<exists>tea. test_acc (history st') = test_acc (history st) @ [tea])
         \<and> stop = stop_due cfg (test_acc (history st'))
         \<and> (list_all is_complete (saves st) \<longrightarrow> list_all is_complete (saves st'))"
proof -
  from assms(3) obtain m2 trl tra tel tea where
    "end_of_epoch env cfg e (trl, tra, tel, tea) (st\<lparr>learner := m2, epoch := Some e\<rparr>)
       = Ok (st', stop)"
    by (auto simp add: run_epoch_def Let_def split: outcome.splits sum.splits prod.splits)
  from end_of_epoch_Ok[OF _ _ this] assms(1,2) show ?thesis
    by (simp add: run_inv_learner_epoch)
qed

lemma run_epoch_Raised:
  fixes st :: "('m, 'f::{zero,plus,times,inverse,linorder}) train_state"
  assumes "run_inv st" and "e = int (length (test_acc (history st))) + 1"
    and "run_epoch env cfg trn tst e st = Raised err st'"
  shows "run_inv st' \<and> (test_acc (history st') = test_acc (history st)
            \<or> (\<exists>tea. test_acc (history st') = test_acc (history st) @ [tea]))"
proof -
  from assms(3) consider
    (early) m1 where "st' = st\<lparr>learner := m1, epoch := Some e\<rparr>"
  | (save) m2 trl tra tel tea where
      "end_of_epoch env cfg e (trl, tra, tel, tea) (st\<lparr>learner := m2, epoch := Some e\<rparr>)
         = Raised err st'"
    by (auto simp add: run_epoch_def Let_def split: outcome.splits sum.splits prod.splits)
  then show ?thesis
  proof cases
    case early
    with assms(1) show ?thesis by (simp add: run_inv_learner_epoch)
  next
    case save
    from end_of_epoch_Raised[OF _ _ save] assms(1,2) show ?thesis
      by (simp add: run_inv_learner_epoch)
  qed
qed

lemma upto_Cons_eq:
  assumes "e # es = [i..n]"
  shows "i \<le> n \<and> e = i \<and> es = [i + 1..n]"
proof -
  have "i \<le> n" using assms by (cases "i \<le> n") simp_all
  with assms show ?thesis by (simp add: upto_rec1)
qed

lemma train_epochs_inv:
  fixes st :: "('m, 'f::{zero,plus,times,inverse,linorder}) train_state"
  assumes "run_inv st" and "es = [int (length (test_acc (history st))) + 1 .. n]"
    and "st' = end_state (train_epochs env cfg trn tst es st)"
  shows "run_inv st'
     \<and> take (length (test_acc (history st))) (test_acc (history st')) = test_acc (history st)
     \<and> length (test_acc (history st)) \<le> length (test_acc (history st'))
     \<and> int (length (test_acc (history st'))) \<le> max n (int (length (test_acc (history st))))
     \<and> (\<forall>j. length (test_acc (history st)) < j \<and> j < length (test_acc (history st'))
            \<longrightarrow> \<not> stop_due cfg (take j (test_acc (history st'))))
     \<and> (returned (train_epochs env cfg trn tst es st) \<longrightarrow>
           (int (length (test_acc (history st'))) < n \<longrightarrow>
              length (test_acc (history st)) < length (test_acc (history st'))
              \<and> stop_due cfg (test_acc (history st')))
           \<and> (list_all is_complete (saves st) \<longrightarrow> list_all is_complete (saves st')))"
  using assms
proof (induction es arbitrary: st)
  case Nil
  then have "n < int (length (test_acc (history st))) + 1"
    by (cases "int (length (test_acc (history st))) + 1 \<le> n") (simp_all add: upto_rec1)
  with Nil show ?case by auto
next
  case (Cons e es)
  let ?h = "test_acc (history st)"
  from upto_Cons_eq[OF Cons.prems(2)]
  have le: "int (length ?h) + 1 \<le> n" and e: "e = int (length ?h) + 1"
    and es: "es = [int (length ?h) + 1 + 1 .. n]" by simp_all
  show ?case
  proof (cases "run_epoch env cfg trn tst e st")
    case (Raised err st1)
    then have st': "st' = st1" using Cons.prems(3) by simp
    from run_epoch_Raised[OF Cons.prems(1) e Raised]
    have "run_inv st1" and "test_acc (history st1) = ?h
            \<or> (\<exists>tea. test_acc (history st1) = ?h @ [tea])" by simp_all
    with le Raised show ?thesis unfolding st' by auto
  next
    case (Ok r)
    obtain st1 stop where r: "r = (st1, stop)" by (cases r)
    from run_epoch_Ok[OF Cons.prems(1) e Ok[unfolded r]]
    obtain tea where inv1: "run_inv st1" and h1: "test_acc (history st1) = ?h @ [tea]"
      and stop: "stop = stop_due cfg (test_acc (history st1))"
      and comp: "list_all is_complete (saves st) \<longrightarrow> list_all is_complete (saves st1)"
      by blast
    show ?thesis
    proof (cases stop)
      case True
      then have st': "st' = st1" and ret: "train_epochs env cfg trn tst (e # es) st = Ok st1"
        using Cons.prems(3) Ok r by simp_all
      show ?thesis
        unfolding st' ret using inv1 h1 stop True comp le by auto
    next
      case False
      then have out: "train_epochs env cfg trn tst (e # es) st = train_epochs env cfg trn tst es st1"
        using Ok r by simp
      have es1: "es = [int (length (test_acc (history st1))) + 1 .. n]"
        using es h1 by simp
      have st1': "st' = end_state (train_epochs env cfg trn tst es st1)"
        using Cons.prems(3) out by simp
      note IH = Cons.IH[OF inv1 es1 st1']
      let ?h' = "test_acc (history st')"
      from IH have tk1: "take (length ?h + 1) ?h' = ?h @ [tea]" by (simp add: h1)
      have "take (length ?h) ?h' = take (length ?h) (take (length ?h + 1) ?h')"
        by (simp add: min_def)
      then have tk: "take (length ?h) ?h' = ?h" unfolding tk1 by simp
      have nostop: "\<not> stop_due cfg (take j ?h')" if "length ?h < j" "j < length ?h'" for j
      proof (cases "j = length ?h + 1")
        case True
        with tk1 stop False h1 show ?thesis by simp
      next
        case False
        with that have "length (test_acc (history st1)) < j" by (simp add: h1)
        with IH that show ?thesis by blast
      qed
      have bound: "int (length ?h') \<le> max n (int (length ?h))"
        using IH le by (simp add: h1)
      have len: "length ?h < length ?h'" using IH by (simp add: h1)
      show ?thesis
        unfolding out using IH tk nostop bound len comp by (simp add: h1)
    qed
  qed
qed

lemma example_epochs: "[1 .. epochs example_config] = [1, 2, 3, 4, 5, 6, 7, 8, 9, 10]"
  by (simp add: example_config_def upto.simps)

lemma example_train_epoch:
  "train_one_epoch example_env m example_train_loader = Ok (m + 2, 5 / 2, 100 / 3)"
  by (simp add: train_one_epoch_def example_env_def example_train_loader_def count_correct_def)

lemma example_evaluate:
  "evaluate example_env m example_test_loader = Inr (1 / 4, if m = 4 then 100 else 80)"
  by (simp add: evaluate_def example_env_def example_test_loader_def count_correct_def)

lemma example_env_fields:
  "scheduler_step example_env m = m" "save_fault example_env e = None"
  by (simp_all add: example_env_def)

lemma example_run:
  "train_epochs example_env example_config example_train_loader example_test_loader
     [1 .. epochs example_config] (init_state 0) =
   Ok \<lparr>learner = 10,
       history = \<lparr>train_loss = [5 / 2, 5 / 2, 5 / 2, 5 / 2, 5 / 2],
                  train_acc = [100 / 3, 100 / 3, 100 / 3, 100 / 3, 100 / 3],
                  test_loss = [1 / 4, 1 / 4, 1 / 4, 1 / 4, 1 / 4],
                  test_acc = [80, 100, 80, 80, 80]\<rparr>,
       best_test_acc = 100, best_epoch = 2, epochs_without_improvement = 3,
       epoch = Some 5,
       saves = [Complete \<lparr>ck_epoch = 2, ck_state_dicts = 4, ck_test_acc = 100,
                          ck_test_loss = 1 / 4, ck_config = example_config\<rparr>,
                Complete \<lparr>ck_epoch = 1, ck_state_dicts = 2, ck_test_acc = 80,
                          ck_test_loss = 1 / 4, ck_config = example_config\<rparr>]\<rparr>"
  unfolding example_epochs
  by (simp add: run_epoch_def end_of_epoch_def init_state_def example_train_epoch
      example_evaluate example_env_fields example_config_def Let_def)

lemma saved_epochs_iff:
  fixes st :: "('m, 'f::{zero,linorder}) train_state"
  assumes "run_inv st" and "h = test_acc (history st)"
  shows "(\<forall>e\<in>{1..length h}. int e \<in> file_epoch ` set (saves st)
            \<longleftrightarrow> h ! (e - 1) > Max (insert 0 (set (take (e - 1) h))))
       \<and> (\<forall>f\<in>set (saves st). 1 \<le> file_epoch f \<and> file_epoch f \<le> int (length h))"
proof -
  have "file_epoch ` set (saves st) = set (map file_epoch (saves st))" by simp
  also have "\<dots> = set (improving_epochs h)"
    using assms by (simp add: run_inv_def Let_def)
  finally have eq: "file_epoch ` set (saves st) = (\<lambda>j. int j + 1) ` {j. j < length h \<and> improves h j}"
    by (auto simp add: improving_epochs_def)
  have "int e \<in> file_epoch ` set (saves st)
            \<longleftrightarrow> h ! (e - 1) > Max (insert 0 (set (take (e - 1) h)))"
    if "e \<in> {1..length h}" for e
  proof -
    have "int e \<in> (\<lambda>j. int j + 1) ` {j. j < length h \<and> improves h j}
                    \<longleftrightarrow> improves h (e - 1)"
    proof
      assume "int e \<in> (\<lambda>j. int j + 1) ` {j. j < length h \<and> improves h j}"
      then obtain j where "improves h j" "int e = int j + 1" by auto
      moreover from this have "j = e - 1" by linarith
      ultimately show "improves h (e - 1)" by simp
    next
      assume "improves h (e - 1)"
      moreover from that have "e - 1 < length h" "int e = int (e - 1) + 1" by auto
      ultimately show "int e \<in> (\<lambda>j. int j + 1) ` {j. j < length h \<and> improves h j}"
        by blast
    qed
    then show ?thesis unfolding eq by (simp add: improves_def best_so_far_def)
  qed
  moreover have "1 \<le> file_epoch f \<and> file_epoch f \<le> int (length h)" if "f \<in> set (saves st)" for f
  proof -
    from that have "file_epoch f \<in> file_epoch ` set (saves st)" by simp
    then show ?thesis unfolding eq by auto
  qed
  ultimately show ?thesis by blast
qed

lemma tie_step:
  fixes s :: "('m, 'f::{zero,linorder}) train_state"
  shows "\<exists>s' stop. end_of_epoch env cfg e (trl, tra, tel, best_test_acc s) s = Ok (s', stop)
           \<and> saves s' = saves s \<and> best_test_acc s' = best_test_acc s
           \<and> best_epoch s' = best_epoch s
           \<and> epochs_without_improvement s' = epochs_without_improvement s + 1"
  by (simp add: end_of_epoch_def Let_def)

text \<open>
  Claim C2. In every run of the epoch loop, ended or raised, with \<open>h\<close> the test
  accuracies it recorded: \<open>torch.save\<close> was called at epoch \<open>e\<close> exactly when the accuracy
  of epoch \<open>e\<close> strictly exceeds the best of \<open>0\<close> and the accuracies of the epochs before
  it; no save belongs to another epoch; the saves of a run that returned are all complete
  checkpoints; \<open>best_test_acc\<close> is the best of \<open>0\<close> and the recorded accuracies. On a tie
  (the accuracy equals \<open>best_test_acc\<close>) the bookkeeping writes no checkpoint, leaves
  \<open>best_test_acc\<close> and \<open>best_epoch\<close> as they are and adds one to the no-improvement counter.
  The accuracy that drives this is the one \<open>evaluate\<close> returns on the test loader.
\<close>

theorem checkpoint_iff_strict_improvement:
  fixes env :: "('m, 'x, 'f::{zero,plus,times,inverse,linorder}) collaborators"
  assumes "st = end_state (train_epochs env cfg train_loader test_loader [1 .. epochs cfg]
                             (init_state m0))"
    and "h = test_acc (history st)"
  shows "(\<forall>e\<in>{1..length h}. int e \<in> file_epoch ` set (saves st)
            \<longleftrightarrow> h ! (e - 1) > Max (insert 0 (set (take (e - 1) h))))
       \<and> (\<forall>f\<in>set (saves st). 1 \<le> file_epoch f \<and> file_epoch f \<le> int (length h))
       \<and> (returned (train_epochs env cfg train_loader test_loader [1 .. epochs cfg]
                       (init_state m0)) \<longrightarrow> list_all is_complete (saves st))
       \<and> best_test_acc st = Max (insert 0 (set h))
       \<and> (\<forall>(s :: ('m, 'f) train_state) e trl tra tel. \<exists>s' stop.
             end_of_epoch env cfg e (trl, tra, tel, best_test_acc s) s = Ok (s', stop)
             \<and> saves s' = saves s \<and> best_test_acc s' = best_test_acc s
             \<and> best_epoch s' = best_epoch s
             \<and> epochs_without_improvement s' = epochs_without_improvement s + 1)"
proof -
  have start: "[1 .. epochs cfg]
      = [int (length (test_acc (history (init_state m0 :: ('m, 'f) train_state)))) + 1 .. epochs cfg]"
    by (simp add: init_state_def)
  from train_epochs_inv[OF run_inv_init start assms(1)]
  have inv: "run_inv st"
    and comp: "returned (train_epochs env cfg train_loader test_loader [1 .. epochs cfg]
                       (init_state m0)) \<longrightarrow> list_all is_complete (saves st)"
    by (simp_all add: init_state_def)
  from inv assms(2) have best: "best_test_acc st = Max (insert 0 (set h))"
    by (simp add: run_inv_def Let_def best_so_far_def)
  from saved_epochs_iff[OF inv assms(2)] comp best tie_step show ?thesis by blast
qed

text \<open>
  Witness for C2: in the example run with accuracies 80, 100, 80, 80, 80 a checkpoint is
  written at epoch 2 and none at epoch 3.
\<close>

theorem checkpoint_iff_strict_improvement_witness:
  "\<exists>st. train_epochs example_env example_config example_train_loader example_test_loader
          [1 .. epochs example_config] (init_state 0) = Ok st
     \<and> test_acc (history st) = [80, 100, 80, 80, 80]
     \<and> 2 \<in> file_epoch ` set (saves st) \<and> 3 \<notin> file_epoch ` set (saves st)
     \<and> list_all is_complete (saves st) \<and> best_test_acc st = 100"
proof -
  define st where "st = end_state (train_epochs example_env example_config example_train_loader
                    example_test_loader [1 .. epochs example_config] (init_state 0))"
  have ok: "train_epochs example_env example_config example_train_loader example_test_loader
          [1 .. epochs example_config] (init_state 0) = Ok st"
    unfolding st_def example_run by simp
  have h: "[80, 100, 80, 80, 80] = test_acc (history st)"
    unfolding st_def example_run by simp
  note T = checkpoint_iff_strict_improvement[OF st_def h]
  from T have iff: "\<forall>e\<in>{1..length [80, 100, 80, 80, 80 :: real]}.
        int e \<in> file_epoch ` set (saves st)
        \<longleftrightarrow> [80, 100, 80, 80, 80 :: real] ! (e - 1)
              > Max (insert 0 (set (take (e - 1) [80, 100, 80, 80, 80])))"
    by blast
  from iff[rule_format, of 2] have two: "2 \<in> file_epoch ` set (saves st)" by simp
  from iff[rule_format, of 3] have three: "3 \<notin> file_epoch ` set (saves st)" by simp
  from T ok have "list_all is_complete (saves st)" by simp
  moreover from T have "best_test_acc st = Max (insert 0 (set [80, 100, 80, 80, 80]))" by blast
  then have "best_test_acc st = 100" by simp
  ultimately show ?thesis using ok h[symmetric] two three by simp
qed

text \<open>
  Claim C3. For a run of the epoch loop that returned, with \<open>h\<close> the test accuracies it
  recorded (one per epoch run): the counter equals the number of epochs since the last
  improving one; the loop never runs more than the configured epochs; it ended before
  them only with early stopping enabled and the count at least \<open>patience\<close>; at no earlier
  epoch boundary did that condition hold, so it broke at the first epoch where it held;
  for \<open>patience \<ge> 1\<close> the count then equals \<open>patience\<close> exactly; and the history of the
  last epoch was recorded in all four lists before the loop broke.
\<close>

theorem early_stopping_exact:
  fixes env :: "('m, 'x, 'f::{zero,plus,times,inverse,linorder}) collaborators"
  assumes "train_epochs env cfg train_loader test_loader [1 .. epochs cfg] (init_state m0) = Ok st"
    and "h = test_acc (history st)"
  shows "epochs_without_improvement st = int (no_improve_count h)
       \<and> int (length h) \<le> max (epochs cfg) 0
       \<and> (int (length h) < epochs cfg \<longrightarrow>
             h \<noteq> [] \<and> early_stopping cfg \<and> patience cfg \<le> int (no_improve_count h))
       \<and> (\<forall>j. 0 < j \<and> j < length h \<longrightarrow>
             \<not> (early_stopping cfg \<and> patience cfg \<le> int (no_improve_count (take j h))))
       \<and> (int (length h) < epochs cfg \<and> 1 \<le> patience cfg \<longrightarrow>
             int (no_improve_count h) = patience cfg)
       \<and> length (train_loss (history st)) = length h
       \<and> length (train_acc (history st)) = length h
       \<and> length (test_loss (history st)) = length h"
proof -
  have start: "[1 .. epochs cfg]
      = [int (length (test_acc (history (init_state m0 :: ('m, 'f) train_state)))) + 1 .. epochs cfg]"
    by (simp add: init_state_def)
  have st: "st = end_state (train_epochs env cfg train_loader test_loader [1 .. epochs cfg]
                             (init_state m0))"
    using assms(1) by simp
  from train_epochs_inv[OF run_inv_init start st] assms
  have inv: "run_inv st"
    and bound: "int (length h) \<le> max (epochs cfg) 0"
    and before: "\<forall>j. 0 < j \<and> j < length h \<longrightarrow> \<not> stop_due cfg (take j h)"
    and early: "int (length h) < epochs cfg \<longrightarrow> 0 < length h \<and> stop_due cfg h"
    by (simp_all add: init_state_def)
  have exact: "int (no_improve_count h) = patience cfg"
    if "int (length h) < epochs cfg" "1 \<le> patience cfg"
  proof -
    from that early have ne: "h \<noteq> []" and es: "early_stopping cfg"
      and ge: "patience cfg \<le> int (no_improve_count h)"
      by (auto simp add: stop_due_def)
    have "int (no_improve_count (butlast h)) < patience cfg"
    proof (cases "length h = 1")
      case True
      then have "butlast h = []" by (cases h) auto
      with that show ?thesis by (simp add: no_improve_count_Nil)
    next
      case False
      with ne have "0 < length h - 1" "length h - 1 < length h" by (cases h; simp)+
      with before es have "\<not> patience cfg \<le> int (no_improve_count (take (length h - 1) h))"
        by (auto simp add: stop_due_def)
      then show ?thesis by (simp add: butlast_conv_take)
    qed
    with no_improve_count_step[OF ne] ge show ?thesis by linarith
  qed
  from inv assms(2) bound before early exact show ?thesis
    by (auto simp add: run_inv_def Let_def stop_due_def)
qed

text \<open>
  Witness for C3: with \<open>patience = 3\<close> and accuracies 80, 100, 80, 80, 80 the loop breaks
  after epoch 5 of 10, the third epoch without improvement, and not after epoch 4.
\<close>

theorem early_stopping_exact_witness:
  "\<exists>st. train_epochs example_env example_config example_train_loader example_test_loader
          [1 .. epochs example_config] (init_state 0) = Ok st
     \<and> test_acc (history st) = [80, 100, 80, 80, 80]
     \<and> int (length (test_acc (history st))) < epochs example_config
     \<and> 1 \<le> patience example_config
     \<and> epochs_without_improvement st = patience example_config
     \<and> \<not> patience example_config \<le> int (no_improve_count (take 4 (test_acc (history st))))"
proof -
  define st where "st = end_state (train_epochs example_env example_config example_train_loader
                    example_test_loader [1 .. epochs example_config] (init_state 0))"
  have ok: "train_epochs example_env example_config example_train_loader example_test_loader
          [1 .. epochs example_config] (init_state 0) = Ok st"
    unfolding st_def example_run by simp
  have h: "[80, 100, 80, 80, 80] = test_acc (history st)"
    unfolding st_def example_run by simp
  have cfg: "int (length (test_acc (history st))) < epochs example_config"
    "1 \<le> patience example_config" "early_stopping example_config"
    unfolding h[symmetric] by (simp_all add: example_config_def)
  note T = early_stopping_exact[OF ok h]
  from T cfg h have "epochs_without_improvement st = patience example_config" by simp
  moreover from T cfg(3)
  have "\<forall>j. 0 < j \<and> j < length [80, 100, 80, 80, 80 :: real] \<longrightarrow>
          \<not> patience example_config \<le> int (no_improve_count (take j [80, 100, 80, 80, 80 :: real]))"
    by blast
  from this[rule_format, of 4]
  have "\<not> patience example_config \<le> int (no_improve_count (take 4 [80, 100, 80, 80, 80 :: real]))"
    by simp
  ultimately show ?thesis using ok h[symmetric] cfg by simp
qed

lemma faulty_train_epoch:
  "train_one_epoch faulty_env m example_train_loader = Ok (m + 2, 5 / 2, 100 / 3)"
  by (simp add: train_one_epoch_def faulty_env_def example_env_def example_train_loader_def
      count_correct_def)

lemma faulty_evaluate:
  "evaluate faulty_env m example_test_loader = Inr (1 / 4, if m = 4 then 100 else 80)"
  by (simp add: evaluate_def faulty_env_def example_env_def example_test_loader_def
      count_correct_def)

lemma faulty_env_fields:
  "scheduler_step faulty_env m = m" "save_fault faulty_env e = (if e = 2 then Some 0 else None)"
  by (simp_all add: faulty_env_def example_env_def)

text \<open>
  Counterexample to C5 as stated. After epoch 1 the file holds the complete checkpoint of
  epoch 1. The write of epoch 2 fails at its first byte: the run raises, and the file
  holds the partial checkpoint of epoch 2, not the one saved before.
\<close>

theorem failed_write_destroys_checkpoint:
  "best_model_pth (end_state (train_epochs faulty_env example_config example_train_loader
       example_test_loader [1] (init_state 0)))
     = Some (Complete \<lparr>ck_epoch = 1, ck_state_dicts = 2, ck_test_acc = 80,
                        ck_test_loss = 1 / 4, ck_config = example_config\<rparr>)
   \<and> \<not> returned (train_epochs faulty_env example_config example_train_loader
       example_test_loader [1, 2] (init_state 0))
   \<and> best_model_pth (end_state (train_epochs faulty_env example_config example_train_loader
       example_test_loader [1, 2] (init_state 0)))
     = Some (Partial \<lparr>ck_epoch = 2, ck_state_dicts = 4, ck_test_acc = 100,
                       ck_test_loss = 1 / 4, ck_config = example_config\<rparr> 0)"
  by (simp add: run_epoch_def end_of_epoch_def init_state_def faulty_train_epoch
      faulty_evaluate faulty_env_fields example_config_def best_model_pth_def Let_def)

lemma train_epochs_append_Raised:
  "train_epochs env cfg trn tst es1 st = Raised err s \<Longrightarrow>
   train_epochs env cfg trn tst (es1 @ es2) st = Raised err s"
  by (induction es1 arbitrary: st) (auto split: outcome.splits if_splits)

text \<open>
  Claim C5, as amended. A checkpoint is written by one \<open>torch.save\<close> straight to
  \<open>best_model.pth\<close>, with no temporary file and no replace. At an improving epoch a write
  that succeeds leaves the complete new checkpoint in the file; a write that fails after
  opening the file raises \<open>IOError\<close> and leaves the partial new checkpoint there, in place
  of the previous one. An error raised in the epoch loop ends the loop, whatever epochs
  remain, and \<open>train\<close> raises it.
\<close>

theorem checkpoint_write_direct:
  fixes env :: "('m, 'x, 'f::{zero,plus,times,inverse,ord}) collaborators"
  assumes "tea > best_test_acc st"
    and "ck = \<lparr>ck_epoch = e, ck_state_dicts = learner st, ck_test_acc = tea,
                 ck_test_loss = tel, ck_config = cfg\<rparr>"
  shows "(case save_fault env e of
            None \<Rightarrow> \<exists>st' stop. end_of_epoch env cfg e (trl, tra, tel, tea) st = Ok (st', stop)
                       \<and> best_model_pth st' = Some (Complete ck)
          | Some k \<Rightarrow> \<exists>st'. end_of_epoch env cfg e (trl, tra, tel, tea) st = Raised IOError st'
                       \<and> best_model_pth st' = Some (Partial ck k))
       \<and> (\<forall>es1 es2 st0 err s.
             train_epochs env cfg trn tst es1 st0 = Raised err s \<longrightarrow>
             train_epochs env cfg trn tst (es1 @ es2) st0 = Raised err s)
       \<and> (\<forall>m0 vl err s.
             train_epochs env cfg trn tst [1 .. epochs cfg] (init_state m0) = Raised err s \<longrightarrow>
             train env cfg m0 (trn, tst, vl) = Raised err s)"
proof -
  have step: "case save_fault env e of
            None \<Rightarrow> \<exists>st' stop. end_of_epoch env cfg e (trl, tra, tel, tea) st = Ok (st', stop)
                       \<and> best_model_pth st' = Some (Complete ck)
          | Some k \<Rightarrow> \<exists>st'. end_of_epoch env cfg e (trl, tra, tel, tea) st = Raised IOError st'
                       \<and> best_model_pth st' = Some (Partial ck k)"
    using assms by (simp add: end_of_epoch_def Let_def best_model_pth_def split: option.splits)
  have raise_up: "train env cfg m0 (trn, tst, vl) = Raised err s"
    if "train_epochs env cfg trn tst [1 .. epochs cfg] (init_state m0) = Raised err s"
    for m0 vl err s
    using that by (simp add: train_def)
  from step raise_up train_epochs_append_Raised[of env cfg trn tst] show ?thesis by blast
qed

text \<open>
  Witness for the amended C5: on the faulty disk the write of epoch 2 raises and leaves a
  partial file, the write of epoch 1 returns and leaves a complete one.
\<close>

theorem checkpoint_write_direct_witness:
  "(80::real) > best_test_acc (init_state 0 :: (nat, real) train_state)
   \<and> (\<exists>st'. end_of_epoch faulty_env example_config 2 (5 / 2, 100 / 3, 1 / 4, 80) (init_state 0)
              = Raised IOError st'
            \<and> best_model_pth st'
                = Some (Partial \<lparr>ck_epoch = 2, ck_state_dicts = 0, ck_test_acc = 80,
                                  ck_test_loss = 1 / 4, ck_config = example_config\<rparr> 0))
   \<and> (\<exists>st'. end_of_epoch faulty_env example_config 1 (5 / 2, 100 / 3, 1 / 4, 80) (init_state 0)
              = Ok (st', False)
            \<and> best_model_pth st'
                = Some (Complete \<lparr>ck_epoch = 1, ck_state_dicts = 0, ck_test_acc = 80,
                                   ck_test_loss = 1 / 4, ck_config = example_config\<rparr>))"
proof -
  have gt: "(80::real) > best_test_acc (init_state 0 :: (nat, real) train_state)"
    by (simp add: init_state_def)
  have l: "learner (init_state 0 :: (nat, real) train_state) = 0" by (simp add: init_state_def)
  from checkpoint_write_direct[OF gt refl, where env = faulty_env and e = 2 and tel = "1 / 4"
      and cfg = example_config and trl = "5 / 2" and tra = "100 / 3"
      and trn = example_train_loader and tst = example_test_loader]
  have a: "\<exists>st'. end_of_epoch faulty_env example_config 2 (5 / 2, 100 / 3, 1 / 4, 80) (init_state 0)
              = Raised IOError st'
            \<and> best_model_pth st'
                = Some (Partial \<lparr>ck_epoch = 2, ck_state_dicts = 0, ck_test_acc = 80,
                                  ck_test_loss = 1 / 4, ck_config = example_config\<rparr> 0)"
    by (simp add: faulty_env_fields l)
  from checkpoint_write_direct[OF gt refl, where env = faulty_env and e = 1 and tel = "1 / 4"
      and cfg = example_config and trl = "5 / 2" and tra = "100 / 3"
      and trn = example_train_loader and tst = example_test_loader]
  obtain st' stop where b: "end_of_epoch faulty_env example_config 1 (5 / 2, 100 / 3, 1 / 4, 80) (init_state 0)
              = Ok (st', stop)"
     "best_model_pth st'
                = Some (Complete \<lparr>ck_epoch = 1, ck_state_dicts = 0, ck_test_acc = 80,
                                   ck_test_loss = 1 / 4, ck_config = example_config\<rparr>)"
    by (auto simp add: faulty_env_fields l)
  from b(1) have "stop = False"
    by (simp add: end_of_epoch_def init_state_def faulty_env_fields example_config_def Let_def)
  with gt a b show ?thesis by blast
qed

lemma run_epoch_uses_test_loader:
  assumes "run_epoch env cfg train_loader test_loader e st = Ok (st', stop)"
  shows "\<exists>m1 trl tra tel tea.
           train_one_epoch env (learner st) train_loader = Ok (m1, trl, tra)
           \<and> evaluate env m1 test_loader = Inr (tel, tea)
           \<and> test_acc (history st') = test_acc (history st) @ [tea]
           \<and> test_loss (history st') = test_loss (history st) @ [tel]
           \<and> (saves st' \<noteq> saves st \<longleftrightarrow> tea > best_test_acc st)
           \<and> stop = (early_stopping cfg \<and> patience cfg \<le> epochs_without_improvement st')"
proof -
  from assms obtain m1 trl tra tel tea where
    t: "train_one_epoch env (learner st) train_loader = Ok (m1, trl, tra)"
    and v: "evaluate env m1 test_loader = Inr (tel, tea)"
    and b: "end_of_epoch env cfg e (trl, tra, tel, tea)
              (st\<lparr>learner := (if scheduler cfg = ''cosine_annealing''
                                then scheduler_step env m1 else m1), epoch := Some e\<rparr>)
            = Ok (st', stop)"
    by (auto simp add: run_epoch_def Let_def split: outcome.splits sum.splits prod.splits)
  from b have "test_acc (history st') = test_acc (history st) @ [tea]
           \<and> test_loss (history st') = test_loss (history st) @ [tel]
           \<and> (saves st' \<noteq> saves st \<longleftrightarrow> tea > best_test_acc st)
           \<and> stop = (early_stopping cfg \<and> patience cfg \<le> epochs_without_improvement st')"
    by (auto simp add: end_of_epoch_def Let_def split: if_splits option.splits)
  with t v show ?thesis by blast
qed

text \<open>
  Claim C10. \<open>train\<close> never reads the third loader: two runs that differ only in it end
  with the same outcome, that is the same history, the same saved checkpoints, the same
  model state and the same final metrics (or the same error). What an epoch records and
  decides comes from the other two: the accuracy appended to the history is the one
  \<open>evaluate\<close> returns on the test loader, a checkpoint is saved exactly when that accuracy
  exceeds \<open>best_test_acc\<close>, and the loop breaks on the counter that follows from it.
\<close>

theorem validation_loader_unused:
  fixes env :: "('m, 'x, 'f::{zero,plus,times,inverse,ord}) collaborators"
  shows "train env cfg m0 (train_loader, test_loader, val_loader)
           = train env cfg m0 (train_loader, test_loader, val_loader')
       \<and> (\<forall>e st st' stop.
             run_epoch env cfg train_loader test_loader e st = Ok (st', stop) \<longrightarrow>
             (\<exists>m1 trl tra tel tea.
                train_one_epoch env (learner st) train_loader = Ok (m1, trl, tra)
                \<and> evaluate env m1 test_loader = Inr (tel, tea)
                \<and> test_acc (history st') = test_acc (history st) @ [tea]
                \<and> test_loss (history st') = test_loss (history st) @ [tel]
                \<and> (saves st' \<noteq> saves st \<longleftrightarrow> tea > best_test_acc st)
                \<and> stop = (early_stopping cfg \<and> patience cfg \<le> epochs_without_improvement st')))"
  using run_epoch_uses_test_loader[of env cfg train_loader test_loader]
  by (simp add: train_def)

text \<open>
  Witness for C10: the example run is the same without a validation loader and with one,
  and its first epoch records the accuracy 80 that \<open>evaluate\<close> finds on the test loader.
\<close>

theorem validation_loader_unused_witness:
  "train example_env example_config 0 (example_train_loader, example_test_loader, None)
     = train example_env example_config 0
         (example_train_loader, example_test_loader, Some example_train_loader)
   \<and> (\<exists>st' stop. run_epoch example_env example_config example_train_loader
                     example_test_loader 1 (init_state 0) = Ok (st', stop)
          \<and> evaluate example_env 2 example_test_loader = Inr (1 / 4, 80)
          \<and> test_acc (history st') = [80])"
proof -
  note T = validation_loader_unused[where env = example_env and cfg = example_config
      and ?m0.0 = 0 and train_loader = example_train_loader and test_loader = example_test_loader
      and val_loader = None and val_loader' = "Some example_train_loader"]
  have "\<exists>st'. run_epoch example_env example_config example_train_loader
                     example_test_loader 1 (init_state 0) = Ok (st', False)"
    by (simp add: run_epoch_def end_of_epoch_def init_state_def example_train_epoch
        example_evaluate example_env_fields example_config_def Let_def)
  then obtain st' stop where run: "run_epoch example_env example_config example_train_loader
                     example_test_loader 1 (init_state 0) = Ok (st', stop)"
    by blast
  from T run obtain m1 trl tra tel tea where
    a: "train_one_epoch example_env (learner (init_state 0 :: (nat, real) train_state))
          example_train_loader = Ok (m1, trl, tra)"
    and b: "evaluate example_env m1 example_test_loader = Inr (tel, tea)"
    and c: "test_acc (history st') = test_acc (history (init_state 0 :: (nat, real) train_state)) @ [tea]"
    by blast
  from a have "m1 = 2" by (simp add: init_state_def example_train_epoch)
  with b have "evaluate example_env 2 example_test_loader = Inr (1 / 4, 80)" "tea = 80"
    by (simp_all add: example_evaluate)
  with c have "test_acc (history st') = [80]" by (simp add: init_state_def)
  with T run \<open>evaluate example_env 2 example_test_loader = Inr (1 / 4, 80)\<close>
  show ?thesis by blast
qed

end
